theory Spec2Isabelle
  imports Complex_Main "HOL-Library.Word"
begin

section \<open>Python values and exceptions\<close>

text \<open>
  The exception classes that the payload parsers and the command constructors raise or
  catch.  \<open>KeyError\<close> and \<open>IndexError\<close> are the two subclasses of Python's
  \<open>LookupError\<close>; \<open>ZeroDivisionError\<close> and \<open>OverflowError\<close> are subclasses of
  \<open>ArithmeticError\<close>, which no handler of the two modules names.
\<close>

datatype exn =
    AssertionError
  | AttributeError
  | KeyError
  | IndexError
  | TypeError
  | ValueError
  | NotImplementedError
  | CorruptPacketError
  | CorruptPayloadError
  | ZeroDivisionError
  | OverflowError

text \<open>
  Values of the decoded records.  A Python float is modelled by the rational number it
  stands for: \<open>int(v, 16) / 100\<close> is \<open>VFloat (of_int n / 100)\<close>.
\<close>

datatype pyval =
    VNone
  | VBool bool
  | VInt int
  | VFloat rat
  | VStr string
  | VDate int int int
  | VList "pyval list"

subsection \<open>Slices and \<open>int(s, 16)\<close>\<close>

text \<open>\<open>s[a:b]\<close> and \<open>s[a:]\<close> for non-negative constant bounds.\<close>

definition slice :: "nat \<Rightarrow> nat \<Rightarrow> 'a list \<Rightarrow> 'a list" where
  "slice a b s = take (b - a) (drop a s)"

definition hexdigit :: "char \<Rightarrow> nat option" where
  "hexdigit c =
     (let n = (of_char c :: nat)
      in if 48 \<le> n \<and> n \<le> 57 then Some (n - 48)
         else if 65 \<le> n \<and> n \<le> 70 then Some (n - 55)
         else if 97 \<le> n \<and> n \<le> 102 then Some (n - 87)
         else None)"

definition is_hex :: "string \<Rightarrow> bool" where
  "is_hex s \<longleftrightarrow> list_all (\<lambda>c. hexdigit c \<noteq> None) s"

definition hexval :: "string \<Rightarrow> nat" where
  "hexval s = foldl (\<lambda>acc c. 16 * acc + (case hexdigit c of None \<Rightarrow> 0 | Some d \<Rightarrow> d)) 0 s"

text \<open>
  The whitespace that \<open>int()\<close> strips from both ends of a string, among the first 256
  code points: blank, the control characters 9 to 13, and the two characters 133 and 160.
  The separators 28 to 31 are not stripped.
\<close>

definition is_space :: "char \<Rightarrow> bool" where
  "is_space c =
     (let n = (of_char c :: nat) in n = 32 \<or> (9 \<le> n \<and> n \<le> 13) \<or> n = 133 \<or> n = 160)"

definition strip_space :: "string \<Rightarrow> string" where
  "strip_space s = rev (dropWhile is_space (rev (dropWhile is_space s)))"

text \<open>
  The digits of a literal: hexadecimal digits, with single underscores allowed between
  two digits.  The flag says whether the previous character was a digit.
\<close>

fun hex_digits_us :: "string \<Rightarrow> bool \<Rightarrow> nat \<Rightarrow> nat option" where
  "hex_digits_us [] prev acc = (if prev then Some acc else None)"
| "hex_digits_us (c # cs) prev acc =
     (if c = CHR ''_'' then (if prev then hex_digits_us cs False acc else None)
      else case hexdigit c of
             None \<Rightarrow> None
           | Some d \<Rightarrow> hex_digits_us cs True (16 * acc + d))"

text \<open>
  \<open>int(s, 16)\<close> on an ASCII string: surrounding whitespace is dropped, then come an
  optional sign, an optional prefix \<open>0x\<close> or \<open>0X\<close> (which one underscore may follow)
  and the digits; anything else raises \<open>ValueError\<close>.
\<close>

fun is_neg :: "string \<Rightarrow> bool" where
  "is_neg (c # cs) = (c = CHR ''-'')"
| "is_neg [] = False"

fun drop_sign :: "string \<Rightarrow> string" where
  "drop_sign (c # cs) = (if c = CHR ''-'' \<or> c = CHR ''+'' then cs else c # cs)"
| "drop_sign [] = []"

fun drop_prefix :: "string \<Rightarrow> string" where
  "drop_prefix (a # b # cs) =
     (if a = CHR ''0'' \<and> (b = CHR ''x'' \<or> b = CHR ''X'')
      then (case cs of [] \<Rightarrow> [] | u # w \<Rightarrow> if u = CHR ''_'' then w else u # w)
      else a # b # cs)"
| "drop_prefix s = s"

definition int16 :: "string \<Rightarrow> exn + int" where
  "int16 s =
     (let t = strip_space s
      in case hex_digits_us (drop_prefix (drop_sign t)) False 0 of
           None \<Rightarrow> Inl ValueError
         | Some n \<Rightarrow> Inr (if is_neg t then - int n else int n))"

section \<open>Primitive decoders (parsers.py)\<close>

text \<open>\<open>_bool\<close>: the assertion admits the three strings, the dictionary knows two.\<close>

definition bool_dec :: "string \<Rightarrow> exn + pyval" where
  "bool_dec v =
     (if v \<notin> {''00'', ''C8'', ''FF''} then Inl AssertionError
      else if v = ''00'' then Inr (VBool False)
      else if v = ''C8'' then Inr (VBool True)
      else Inr VNone)"

text \<open>\<open>_percent\<close>\<close>

definition percent :: "string \<Rightarrow> exn + pyval" where
  "percent v =
     (if length v \<noteq> 2 then Inl AssertionError
      else if v \<in> {''EF'', ''FE'', ''FF''} then Inr VNone
      else case int16 v of
             Inl e \<Rightarrow> Inl e
           | Inr n \<Rightarrow> if \<not> n \<le> 200 then Inl AssertionError
                      else Inr (VFloat (of_int n / 200)))"

text \<open>\<open>_temp\<close>\<close>

definition temp :: "string \<Rightarrow> exn + pyval" where
  "temp v =
     (if length v \<noteq> 4 then Inl AssertionError
      else if v = ''31FF'' then Inr VNone
      else if v = ''7EFF'' then Inr (VBool False)
      else if v = ''7FFF'' then Inr VNone
      else case int16 v of
             Inl e \<Rightarrow> Inl e
           | Inr t \<Rightarrow> Inr (VFloat (of_int (if t < 2 ^ 15 then t else t - 2 ^ 16) / 100)))"

text \<open>
  \<open>bytes.fromhex\<close> and \<open>bytearray.fromhex\<close>: ASCII whitespace is skipped before
  each byte, the two digits of a byte are adjacent, anything else raises \<open>ValueError\<close>.
\<close>

definition is_ascii_space :: "char \<Rightarrow> bool" where
  "is_ascii_space c = (let n = (of_char c :: nat) in n = 32 \<or> (9 \<le> n \<and> n \<le> 13))"

fun fromhex :: "string \<Rightarrow> exn + nat list" where
  "fromhex [] = Inr []"
| "fromhex [c] = (if is_ascii_space c then Inr [] else Inl ValueError)"
| "fromhex (a # b # cs) =
     (if is_ascii_space a then fromhex (b # cs)
      else case (hexdigit a, hexdigit b) of
             (Some x, Some y) \<Rightarrow>
               (case fromhex cs of Inl e \<Rightarrow> Inl e | Inr bs \<Rightarrow> Inr ((16 * x + y) # bs))
           | _ \<Rightarrow> Inl ValueError)"

text \<open>
  \<open>_str\<close>: the printable bytes, decoded and stripped of blanks at both ends; \<open>None\<close>
  when no printable byte is left.  A payload of blanks only gives the empty string.
\<close>

definition str_dec :: "string \<Rightarrow> exn + pyval" where
  "str_dec v =
     (case fromhex v of
        Inl e \<Rightarrow> Inl e
      | Inr bs \<Rightarrow>
          (let string = filter (\<lambda>x. 31 < x \<and> x < 127) bs
           in if string = [] then Inr VNone
              else Inr (VStr (rev (dropWhile (\<lambda>c. c = CHR '' '')
                               (rev (dropWhile (\<lambda>c. c = CHR '' '')
                                 (map char_of string))))))))"

text \<open>\<open>_flag8\<close>: the loop over \<open>range(8)\<close> shifts the bits of the first byte out.\<close>

fun flag8_loop :: "nat \<Rightarrow> nat \<Rightarrow> pyval list" where
  "flag8_loop 0 byte = []"
| "flag8_loop (Suc i) byte = VInt (int (byte mod 2)) # flag8_loop i (byte div 2)"

definition flag8 :: "string \<Rightarrow> exn + pyval" where
  "flag8 byte =
     (case fromhex byte of
        Inl e \<Rightarrow> Inl e
      | Inr [] \<Rightarrow> Inl IndexError
      | Inr (b # _) \<Rightarrow> Inr (VList (flag8_loop 8 b)))"

text \<open>\<open>_double\<close>; the callers pass the factors 1 and 100.\<close>

definition double_dec :: "string \<Rightarrow> int \<Rightarrow> exn + pyval" where
  "double_dec val factor =
     (if val = ''7FFF'' then Inr VNone
      else case int16 val of
             Inl e \<Rightarrow> Inl e
           | Inr result \<Rightarrow>
               if \<not> result < 32767 then Inl AssertionError
               else if factor = 1 then Inr (VInt result)
               else if factor = 0 then Inl ZeroDivisionError
               else Inr (VFloat (of_int result / of_int factor)))"

text \<open>
  \<open>_date\<close>: \<open>datetime(year, month, day)\<close> raises \<open>ValueError\<close> outside the calendar.
  The result stands for the string that \<open>strftime("%Y-%m-%d")\<close> prints for the date.
\<close>

definition days_in_month :: "int \<Rightarrow> int \<Rightarrow> int" where
  "days_in_month y m =
     (if m = 2 then (if y mod 4 = 0 \<and> (y mod 100 \<noteq> 0 \<or> y mod 400 = 0) then 29 else 28)
      else if m \<in> {4, 6, 9, 11} then 30 else 31)"

definition valid_date :: "int \<Rightarrow> int \<Rightarrow> int \<Rightarrow> bool" where
  "valid_date y m d \<longleftrightarrow>
     1 \<le> y \<and> y \<le> 9999 \<and> 1 \<le> m \<and> m \<le> 12 \<and> 1 \<le> d \<and> d \<le> days_in_month y m"

definition date_dec :: "string \<Rightarrow> exn + pyval" where
  "date_dec v =
     (if length v \<noteq> 8 then Inl AssertionError
      else if v = ''FFFFFFFF'' then Inr VNone
      else case int16 (slice 4 8 v) of
             Inl e \<Rightarrow> Inl e
           | Inr y \<Rightarrow>
          (case int16 (slice 2 4 v) of
             Inl e \<Rightarrow> Inl e
           | Inr m \<Rightarrow>
          (case int16 (take 2 v) of
             Inl e \<Rightarrow> Inl e
           | Inr d \<Rightarrow>
               if valid_date y m (d mod 32) then Inr (VDate y m (d mod 32))
               else Inl ValueError)))"

section \<open>Command constructors (protocol/command.py)\<close>

subsection \<open>String formatting\<close>

fun dec_str :: "nat \<Rightarrow> string" where
  "dec_str n =
     (if n < 10 then [char_of (48 + n)] else dec_str (n div 10) @ [char_of (48 + n mod 10)])"

fun hex_str :: "nat \<Rightarrow> string" where
  "hex_str n =
     (if n < 16 then [''0123456789ABCDEF'' ! n]
      else hex_str (n div 16) @ [''0123456789ABCDEF'' ! (n mod 16)])"

definition zfill :: "nat \<Rightarrow> string \<Rightarrow> string" where
  "zfill w s = replicate (w - length s) (CHR ''0'') @ s"

text \<open>\<open>f"{n:0wX}"\<close> and \<open>f"{n:0wd}"\<close>: the sign counts in the width.\<close>

definition fmtX :: "nat \<Rightarrow> int \<Rightarrow> string" where
  "fmtX w n = (if n < 0 then CHR ''-'' # zfill (w - 1) (hex_str (nat (- n)))
               else zfill w (hex_str (nat n)))"

definition fmtd :: "nat \<Rightarrow> int \<Rightarrow> string" where
  "fmtd w n = (if n < 0 then CHR ''-'' # zfill (w - 1) (dec_str (nat (- n)))
               else zfill w (dec_str (nat n)))"

text \<open>\<open>f"{s:>w}"\<close> and \<open>"{:<w}".format(s)\<close>\<close>

definition rjust :: "nat \<Rightarrow> string \<Rightarrow> string" where
  "rjust w s = replicate (w - length s) (CHR '' '') @ s"

definition ljust :: "nat \<Rightarrow> string \<Rightarrow> string" where
  "ljust w s = s @ replicate (w - length s) (CHR '' '')"

subsection \<open>What the module imports\<close>

text \<open>
  A \<open>datetime\<close> is a point on the time line; the constructors compare timestamps and
  hand them to \<open>dtm_to_hex\<close>, nothing else.  A \<open>datetime\<close> object is always true in
  a condition.
\<close>

type_synonym datetime = int

text \<open>
  The five attributes of \<open>ZONE_MODE\<close> that the module names.  \<open>ZONE_MODE._hex\<close> maps a
  key of the table (a name or a code) to its mode and raises \<open>KeyError\<close> on anything
  else: an explicit mode argument is a key or is not.
\<close>

datatype zone_mode =
    follow_schedule
  | advanced_override
  | permanent_override
  | countdown_override
  | temporary_override

datatype mode_arg = ModeKey zone_mode | ModeOther

text \<open>
  The helpers of \<open>helpers.py\<close>, \<open>address.py\<close> and \<open>const.py\<close> that the constructors
  call: they are parameters of the model.  \<open>pkt_addrs\<close> gives the identifiers of the
  three addresses of the frame, \<open>command_regex\<close> says whether \<open>COMMAND_REGEX\<close> matches,
  \<open>zone_mode_code\<close> is the two-digit code of a mode.
\<close>

record helpers =
  temp_to_hex :: "pyval \<Rightarrow> exn + string"
  dtm_to_hex :: "datetime \<Rightarrow> exn + string"
  pkt_addrs :: "string \<Rightarrow> exn + (string \<times> string \<times> string)"
  command_regex :: "string \<Rightarrow> bool"
  zone_mode_code :: "zone_mode \<Rightarrow> string"
  HGI_DEV_ADDR_id :: string
  NON_DEV_ADDR_id :: string
  NUL_DEV_ADDR_id :: string

text \<open>The verbs and the priorities.\<close>

definition I_verb :: string where "I_verb = '' I''"
definition RQ :: string where "RQ = ''RQ''"
definition RP :: string where "RP = ''RP''"
definition W_verb :: string where "W_verb = '' W''"

definition Priority_LOW :: int where "Priority_LOW = 6"
definition Priority_DEFAULT :: int where "Priority_DEFAULT = 4"
definition Priority_HIGH :: int where "Priority_HIGH = 2"

text \<open>The priority column of \<open>QOS_TABLE\<close>, with the default of \<open>QOS_TX_DEFAULT\<close>.\<close>

definition qos_priority :: "string \<Rightarrow> string \<Rightarrow> int" where
  "qos_priority v c =
     (if (v, c) \<in> {(RQ, ''0016''), (RQ, ''1F09''), (I_verb, ''1FC9''), (I_verb, ''0404''),
                    (W_verb, ''0404'')} then Priority_HIGH
      else if (v, c) = (RQ, ''0418'') then Priority_LOW
      else Priority_DEFAULT)"

subsection \<open>\<open>validate_command\<close>\<close>

text \<open>
  \<open>_wrapper\<close>: the five classes of the \<open>except\<close> clause are logged and the call
  returns \<open>None\<close>; every other exception goes on to the caller.
\<close>

definition vc_caught :: "exn \<Rightarrow> bool" where
  "vc_caught e \<longleftrightarrow>
     e \<in> {AssertionError, AttributeError, KeyError, IndexError, TypeError, ValueError}"

definition vc_wrapper :: "exn + 'a \<Rightarrow> exn + 'a option" where
  "vc_wrapper r =
     (case r of
        Inr c \<Rightarrow> Inr (Some c)
      | Inl e \<Rightarrow> if vc_caught e then Inr None else Inl e)"

text \<open>What \<open>_wrapper\<close> writes to the log: the exception it catches.\<close>

definition vc_logged :: "exn + 'a \<Rightarrow> exn list" where
  "vc_logged r =
     (case r of
        Inr c \<Rightarrow> []
      | Inl e \<Rightarrow> if vc_caught e then [e] else [])"

definition device_decorator :: "exn + 'a \<Rightarrow> exn + 'a option" where
  "device_decorator r = vc_wrapper r"

text \<open>
  \<open>zone_decorator\<close>: the index is an \<open>int\<close> or a \<open>str\<close>; the conversion and the range
  check run before \<open>_wrapper\<close>, outside its \<open>try\<close>.  The chained comparison
  \<open>0 > zone_idx > 15\<close> is \<open>0 > zone_idx and zone_idx > 15\<close>.
\<close>

datatype zone_arg = ZInt int | ZStr string

definition zone_decorator :: "zone_arg \<Rightarrow> (int \<Rightarrow> exn + 'a) \<Rightarrow> exn + 'a option" where
  "zone_decorator zone_idx fcn =
     (case (case zone_idx of
              ZInt z \<Rightarrow> Inr z
            | ZStr s \<Rightarrow> int16 (if s = ''HW'' then ''FA'' else s)) of
        Inl e \<Rightarrow> Inl e
      | Inr z \<Rightarrow>
          if (0 > z \<and> z > 15) \<and> z \<noteq> 250 then Inl ValueError
          else vc_wrapper (fcn z))"

subsection \<open>\<open>normalise_zone_mode\<close> and \<open>normalise_duration\<close>\<close>

text \<open>Truth values: a \<open>datetime\<close> is true, an \<open>int\<close> is true unless it is 0.\<close>

definition truthy_dt :: "datetime option \<Rightarrow> bool" where
  "truthy_dt until \<longleftrightarrow> until \<noteq> None"

definition truthy_int :: "int option \<Rightarrow> bool" where
  "truthy_int duration \<longleftrightarrow> (case duration of None \<Rightarrow> False | Some d \<Rightarrow> d \<noteq> 0)"

definition normalise_zone_mode ::
    "mode_arg option \<Rightarrow> pyval \<Rightarrow> datetime option \<Rightarrow> int option \<Rightarrow> exn + zone_mode" where
  "normalise_zone_mode mode target until duration =
     (if mode = None \<and> target = VNone then Inl ValueError
      else if truthy_dt until \<and> truthy_int duration then Inl ValueError
      else case (case mode of
                   None \<Rightarrow>
                     Inr (if truthy_dt until then temporary_override
                          else if truthy_int duration then countdown_override
                          else permanent_override)
                 | Some (ModeKey m) \<Rightarrow> Inr m
                 | Some ModeOther \<Rightarrow> Inl KeyError) of
             Inl e \<Rightarrow> Inl e
           | Inr m \<Rightarrow>
               if m \<noteq> follow_schedule \<and> target = VNone then Inl ValueError else Inr m)"

text \<open>
  \<open>normalise_duration\<close>, first with its local variables at the \<open>return\<close> statement:
  the assignment \<open>mode = ZONE_MODE.advanced_override\<close> changes the local \<open>mode\<close> only.
  The function returns \<open>until, duration\<close>.
\<close>

definition normalise_duration_locals ::
    "zone_mode \<Rightarrow> datetime option \<Rightarrow> int option
       \<Rightarrow> exn + (zone_mode \<times> datetime option \<times> int option)" where
  "normalise_duration_locals mode until duration =
     (if mode = temporary_override then
        (if duration \<noteq> None then Inl ValueError
         else if until = None then Inr (advanced_override, until, duration)
         else Inr (mode, until, duration))
      else if mode = countdown_override then
        (if duration = None then Inl ValueError
         else if until \<noteq> None then Inl ValueError
         else Inr (mode, until, duration))
      else if until \<noteq> None \<or> duration \<noteq> None then Inl ValueError
      else Inr (mode, until, duration))"

definition normalise_duration ::
    "zone_mode \<Rightarrow> pyval \<Rightarrow> datetime option \<Rightarrow> int option
       \<Rightarrow> exn + (datetime option \<times> int option)" where
  "normalise_duration mode target until duration =
     (case normalise_duration_locals mode until duration of
        Inl e \<Rightarrow> Inl e
      | Inr (mode', until', duration') \<Rightarrow> Inr (until', duration'))"

subsection \<open>The class \<open>Command\<close>\<close>

record command =
  verb :: string
  seqn :: string
  addrs :: "string \<times> string \<times> string"
  code :: string
  len :: nat
  payload :: string
  priority :: "int option"
  dtm :: datetime

text \<open>
  The keyword arguments that \<open>__init__\<close> reads for the frame and the priority.  A key
  may be absent (\<open>None\<close> here); the value passed for \<open>priority\<close> is an integer or
  Python's \<open>None\<close> (\<open>Some None\<close> here).
\<close>

record kwargs =
  from_id :: "string option"
  kw_priority :: "int option option"

definition no_kwargs :: kwargs where
  "no_kwargs = \<lparr>from_id = None, kw_priority = None\<rparr>"

text \<open>\<open>__str__\<close>, with \<open>COMMAND_FORMAT\<close>\<close>

definition command_str :: "command \<Rightarrow> string" where
  "command_str c =
     (case addrs c of (a0, a1, a2) \<Rightarrow>
        ljust 2 (verb c) @ '' '' @ seqn c @ '' '' @ a0 @ '' '' @ a1 @ '' '' @ a2 @ '' ''
          @ code c @ '' '' @ fmtd 3 (int (len c)) @ '' '' @ payload c)"

text \<open>\<open>is_valid\<close>, computed afresh (\<open>_is_valid\<close> is \<open>None\<close> when it is called).\<close>

definition is_valid :: "helpers \<Rightarrow> command \<Rightarrow> bool" where
  "is_valid h c \<longleftrightarrow>
     command_regex h (command_str c) \<and> 2 \<le> length (payload c) \<and> length (payload c) \<le> 96"

text \<open>
  \<open>__init__\<close>; \<open>now\<close> is the value of \<open>dt_now()\<close>.  \<open>_qos\<close> copies the keyword
  argument \<open>priority\<close> when the key is present, whatever its value, and takes the
  priority of the table otherwise; \<open>_priority\<close> is that entry.  In the record the
  priority \<open>None\<close> is Python's \<open>None\<close>.
\<close>

definition Command_init ::
    "helpers \<Rightarrow> datetime \<Rightarrow> string \<Rightarrow> string \<Rightarrow> string \<Rightarrow> string \<Rightarrow> kwargs \<Rightarrow> exn + command" where
  "Command_init h now verb0 code0 payload0 dest_id kw =
     (case pkt_addrs h ((case from_id kw of None \<Rightarrow> HGI_DEV_ADDR_id h | Some f \<Rightarrow> f)
                         @ '' '' @ dest_id @ '' '' @ NON_DEV_ADDR_id h) of
        Inl e \<Rightarrow> Inl e
      | Inr a \<Rightarrow>
          (let v = take 2 (rjust 2 verb0);
               c = \<lparr>verb = v, seqn = ''---'', addrs = a, code = code0,
                    len = length payload0 div 2, payload = payload0,
                    priority = (case kw_priority kw of
                                  None \<Rightarrow> Some (qos_priority v code0)
                                | Some p \<Rightarrow> p),
                    dtm = now\<rparr>
           in if \<not> is_valid h c then Inl ValueError else Inr c))"

text \<open>
  \<open>int(s)\<close> on an ASCII string, for the sequence number of \<open>packet\<close>: as
  \<open>int(s, 16)\<close> with decimal digits and without a prefix.
\<close>

fun dec_digits_us :: "string \<Rightarrow> bool \<Rightarrow> nat \<Rightarrow> nat option" where
  "dec_digits_us [] prev acc = (if prev then Some acc else None)"
| "dec_digits_us (c # cs) prev acc =
     (if c = CHR ''_'' then (if prev then dec_digits_us cs False acc else None)
      else if 48 \<le> (of_char c :: nat) \<and> (of_char c :: nat) \<le> 57
           then dec_digits_us cs True (10 * acc + (of_char c - 48))
           else None)"

definition int10 :: "string \<Rightarrow> exn + int" where
  "int10 s =
     (let t = strip_space s
      in case dec_digits_us (drop_sign t) False 0 of
           None \<Rightarrow> Inl ValueError
         | Some n \<Rightarrow> Inr (if is_neg t then - int n else int n))"

text \<open>
  \<open>packet\<close>, the constructor with fewer checks: the command is built for the null
  device, then its sequence number and addresses are replaced and \<open>is_valid\<close> is
  computed again.
\<close>

datatype seqn_arg = SeqnStr string | SeqnInt int

definition Command_packet ::
    "helpers \<Rightarrow> datetime \<Rightarrow> string \<Rightarrow> string \<Rightarrow> string \<Rightarrow> string option \<Rightarrow> string option
       \<Rightarrow> string option \<Rightarrow> seqn_arg option \<Rightarrow> kwargs \<Rightarrow> exn + command" where
  "Command_packet h now verb0 code0 payload0 addr0 addr1 addr2 seqn0 kw =
     (let v = (if verb0 = ''I'' then I_verb else if verb0 = ''W'' then W_verb else verb0);
          a = (\<lambda>x. case x of None \<Rightarrow> NON_DEV_ADDR_id h | Some y \<Rightarrow> y)
      in case Command_init h now v code0 payload0 (NUL_DEV_ADDR_id h) kw of
           Inl e \<Rightarrow> Inl e
         | Inr cmd \<Rightarrow>
             (case (case seqn0 of
                      None \<Rightarrow> Inr (seqn cmd)
                    | Some (SeqnStr s) \<Rightarrow>
                        if s \<in> {[], ''-'', ''--'', ''---''} then Inr ''---''
                        else (case int10 s of Inl e \<Rightarrow> Inl e | Inr n \<Rightarrow> Inr (fmtd 3 n))
                    | Some (SeqnInt n) \<Rightarrow> Inr (fmtd 3 n)) of
                Inl e \<Rightarrow> Inl e
              | Inr sq \<Rightarrow>
                  (case pkt_addrs h (a addr0 @ '' '' @ a addr1 @ '' '' @ a addr2) of
                     Inl e \<Rightarrow> Inl e
                   | Inr ads \<Rightarrow>
                       (let cmd' = cmd\<lparr>seqn := sq, addrs := ads\<rparr>
                        in if \<not> is_valid h cmd' then Inl ValueError else Inr cmd'))))"

text \<open>
  \<open>__eq__\<close> and \<open>__lt__\<close> compare the tuples \<open>(_priority, _dtm)\<close>.  Python compares
  tuples by the first components that are not equal; equal tuples are not smaller.
  \<open>None == None\<close> holds and \<open>None\<close> equals no number; \<open>None < x\<close> and \<open>x < None\<close>
  raise \<open>TypeError\<close>.  \<open>functools.total_ordering\<close> derives \<open>__le__\<close> as
  \<open>__lt__\<close> or \<open>__eq__\<close>.
\<close>

definition priority_lt :: "int option \<Rightarrow> int option \<Rightarrow> exn + bool" where
  "priority_lt x y =
     (case (x, y) of
        (Some p, Some q) \<Rightarrow> Inr (p < q)
      | _ \<Rightarrow> Inl TypeError)"

definition tuple_lt :: "int option \<times> datetime \<Rightarrow> int option \<times> datetime \<Rightarrow> exn + bool" where
  "tuple_lt x y =
     (if fst x \<noteq> fst y then priority_lt (fst x) (fst y)
      else if snd x \<noteq> snd y then Inr (snd x < snd y)
      else Inr False)"

definition command_eq :: "command \<Rightarrow> command \<Rightarrow> bool" where
  "command_eq a b \<longleftrightarrow> (priority a, dtm a) = (priority b, dtm b)"

definition command_lt :: "command \<Rightarrow> command \<Rightarrow> exn + bool" where
  "command_lt a b = tuple_lt (priority a, dtm a) (priority b, dtm b)"

definition command_le :: "command \<Rightarrow> command \<Rightarrow> exn + bool" where
  "command_le a b =
     (case command_lt a b of
        Inl e \<Rightarrow> Inl e
      | Inr r \<Rightarrow> Inr (r \<or> command_eq a b))"

subsection \<open>Constructors\<close>

text \<open>Sequencing of calls that may raise.\<close>

definition bind :: "exn + 'a \<Rightarrow> ('a \<Rightarrow> exn + 'b) \<Rightarrow> exn + 'b" where
  "bind r f = (case r of Inl e \<Rightarrow> Inl e | Inr x \<Rightarrow> f x)"

text \<open>\<open>set_dhw_params\<close>; an argument \<open>None\<close> stands for its default.\<close>

definition set_dhw_params_body ::
    "helpers \<Rightarrow> datetime \<Rightarrow> string \<Rightarrow> rat option \<Rightarrow> int option \<Rightarrow> rat option \<Rightarrow> kwargs
       \<Rightarrow> exn + command" where
  "set_dhw_params_body h now ctl_id setpoint0 overrun0 differential0 kw =
     (let setpoint = (case setpoint0 of None \<Rightarrow> 50 | Some s \<Rightarrow> s);
          overrun = (case overrun0 of None \<Rightarrow> 5 | Some v \<Rightarrow> v);
          differential = (case differential0 of None \<Rightarrow> 1 | Some d \<Rightarrow> d)
      in if \<not> (30 \<le> setpoint \<and> setpoint \<le> 85) then Inl AssertionError
         else if \<not> (0 \<le> overrun \<and> overrun \<le> 10) then Inl AssertionError
         else if \<not> (1 \<le> differential \<and> differential \<le> 10) then Inl AssertionError
         else bind (temp_to_hex h (VFloat setpoint)) (\<lambda>sp.
              bind (temp_to_hex h (VFloat differential)) (\<lambda>df.
                Command_init h now W_verb ''10A0'' (''00'' @ sp @ fmtX 2 overrun @ df)
                  ctl_id kw)))"

definition set_dhw_params ::
    "helpers \<Rightarrow> datetime \<Rightarrow> string \<Rightarrow> rat option \<Rightarrow> int option \<Rightarrow> rat option \<Rightarrow> kwargs
       \<Rightarrow> exn + command option" where
  "set_dhw_params h now ctl_id setpoint overrun differential kw =
     device_decorator (set_dhw_params_body h now ctl_id setpoint overrun differential kw)"

text \<open>The tail of the payload that \<open>set_dhw_mode\<close> and \<open>set_zone_mode\<close> share.\<close>

definition duration_hex :: "int option \<Rightarrow> string" where
  "duration_hex duration = (case duration of None \<Rightarrow> ''FFFFFF'' | Some d \<Rightarrow> fmtX 6 d)"

definition until_hex :: "helpers \<Rightarrow> datetime option \<Rightarrow> exn + string" where
  "until_hex h until = (case until of None \<Rightarrow> Inr [] | Some u \<Rightarrow> dtm_to_hex h u)"

text \<open>\<open>isinstance(x, (float, int))\<close> and \<open>isinstance(x, (bool, int))\<close>; \<open>bool(x)\<close>\<close>

definition is_float_or_int :: "pyval \<Rightarrow> bool" where
  "is_float_or_int x = (case x of VFloat _ \<Rightarrow> True | VInt _ \<Rightarrow> True | VBool _ \<Rightarrow> True | _ \<Rightarrow> False)"

definition is_bool_or_int :: "pyval \<Rightarrow> bool" where
  "is_bool_or_int x = (case x of VInt _ \<Rightarrow> True | VBool _ \<Rightarrow> True | _ \<Rightarrow> False)"

definition py_bool :: "pyval \<Rightarrow> bool" where
  "py_bool x =
     (case x of VNone \<Rightarrow> False | VBool b \<Rightarrow> b | VInt n \<Rightarrow> n \<noteq> 0 | VFloat r \<Rightarrow> r \<noteq> 0
      | VStr s \<Rightarrow> s \<noteq> [] | VDate _ _ _ \<Rightarrow> True | VList xs \<Rightarrow> xs \<noteq> [])"

text \<open>\<open>set_zone_mode\<close>: the body runs with the index that \<open>zone_decorator\<close> computed.\<close>

definition set_zone_mode_body ::
    "helpers \<Rightarrow> datetime \<Rightarrow> string \<Rightarrow> mode_arg option \<Rightarrow> pyval \<Rightarrow> datetime option
       \<Rightarrow> int option \<Rightarrow> kwargs \<Rightarrow> int \<Rightarrow> exn + command" where
  "set_zone_mode_body h now ctl_id mode0 setpoint until0 duration0 kw zone_idx =
     bind (normalise_zone_mode mode0 setpoint until0 duration0) (\<lambda>mode.
       if setpoint \<noteq> VNone \<and> \<not> is_float_or_int setpoint then Inl TypeError
       else bind (normalise_duration mode setpoint until0 duration0) (\<lambda>(until, duration).
            bind (temp_to_hex h setpoint) (\<lambda>sp.
            bind (until_hex h until) (\<lambda>un.
              Command_init h now W_verb ''2349''
                (fmtX 2 zone_idx @ sp @ zone_mode_code h mode @ duration_hex duration @ un)
                ctl_id kw))))"

definition set_zone_mode ::
    "helpers \<Rightarrow> datetime \<Rightarrow> string \<Rightarrow> zone_arg \<Rightarrow> mode_arg option \<Rightarrow> pyval
       \<Rightarrow> datetime option \<Rightarrow> int option \<Rightarrow> kwargs \<Rightarrow> exn + command option" where
  "set_zone_mode h now ctl_id zone_idx mode setpoint until duration kw =
     zone_decorator zone_idx (set_zone_mode_body h now ctl_id mode setpoint until duration kw)"

text \<open>\<open>set_dhw_mode\<close>\<close>

definition set_dhw_mode_body ::
    "helpers \<Rightarrow> datetime \<Rightarrow> string \<Rightarrow> mode_arg option \<Rightarrow> pyval \<Rightarrow> datetime option
       \<Rightarrow> int option \<Rightarrow> kwargs \<Rightarrow> exn + command" where
  "set_dhw_mode_body h now ctl_id mode0 active until0 duration0 kw =
     bind (normalise_zone_mode mode0 active until0 duration0) (\<lambda>mode.
       if active \<noteq> VNone \<and> \<not> is_bool_or_int active then Inl TypeError
       else bind (normalise_duration mode active until0 duration0) (\<lambda>(until, duration).
            bind (until_hex h until) (\<lambda>un.
              Command_init h now W_verb ''1F41''
                (''00'' @ (if py_bool active then ''01'' else ''00'') @ zone_mode_code h mode
                   @ duration_hex duration @ un)
                ctl_id kw)))"

definition set_dhw_mode ::
    "helpers \<Rightarrow> datetime \<Rightarrow> string \<Rightarrow> mode_arg option \<Rightarrow> pyval \<Rightarrow> datetime option
       \<Rightarrow> int option \<Rightarrow> kwargs \<Rightarrow> exn + command option" where
  "set_dhw_mode h now ctl_id mode active until duration kw =
     device_decorator (set_dhw_mode_body h now ctl_id mode active until duration kw)"

text \<open>
  \<open>get_system_log_entry\<close>: the index is an \<open>int\<close>, or a \<open>str\<close> read as a hexadecimal
  number.
\<close>

definition get_system_log_entry_body ::
    "helpers \<Rightarrow> datetime \<Rightarrow> string \<Rightarrow> zone_arg \<Rightarrow> kwargs \<Rightarrow> exn + command" where
  "get_system_log_entry_body h now ctl_id log_idx kw =
     bind (case log_idx of ZInt n \<Rightarrow> Inr n | ZStr s \<Rightarrow> int16 s)
       (\<lambda>n. Command_init h now RQ ''0418'' (fmtX 6 n) ctl_id kw)"

definition get_system_log_entry ::
    "helpers \<Rightarrow> datetime \<Rightarrow> string \<Rightarrow> zone_arg \<Rightarrow> kwargs \<Rightarrow> exn + command option" where
  "get_system_log_entry h now ctl_id log_idx kw =
     device_decorator (get_system_log_entry_body h now ctl_id log_idx kw)"

subsection \<open>An instance of the helpers\<close>

text \<open>
  Modelled from the spec: \<open>temp_to_hex\<close> of \<open>helpers.py\<close> is not part of the sources.
  The spec gives the layout that \<open>_temp\<close> reads back: four hexadecimal digits, the
  value times 100 in two's complement (a setpoint of 20.0 is \<open>07D0\<close>), \<open>7FFF\<close> for an
  absent value and \<open>7EFF\<close> for \<open>False\<close>.
\<close>

definition temp_to_hex_spec :: "pyval \<Rightarrow> exn + string" where
  "temp_to_hex_spec v =
     (let enc = (\<lambda>t :: int. Inr (fmtX 4 (if t \<ge> 0 then t else t + 2 ^ 16)))
      in case v of
           VNone \<Rightarrow> Inr ''7FFF''
         | VBool b \<Rightarrow> if b then enc 100 else Inr ''7EFF''
         | VInt n \<Rightarrow> enc (n * 100)
         | VFloat r \<Rightarrow> enc (if r \<ge> 0 then \<lfloor>r * 100\<rfloor> else \<lceil>r * 100\<rceil>)
         | _ \<Rightarrow> Inl TypeError)"

text \<open>
  The instance used to evaluate the constructors on examples: the frame has its three
  addresses separated by blanks, every frame made of printable characters matches, and
  the modes have the codes 00 to 04 in the order of the datatype.
\<close>

fun split_blank :: "string \<Rightarrow> string \<Rightarrow> string list" where
  "split_blank acc [] = [rev acc]"
| "split_blank acc (c # cs) =
     (if c = CHR '' '' then rev acc # split_blank [] cs else split_blank (c # acc) cs)"

definition example_helpers :: helpers where
  "example_helpers =
     \<lparr>temp_to_hex = temp_to_hex_spec,
      dtm_to_hex = (\<lambda>t. Inr (fmtX 12 t)),
      pkt_addrs = (\<lambda>s. case split_blank [] s of
                          [a, b, c] \<Rightarrow> Inr (a, b, c)
                        | _ \<Rightarrow> Inl ValueError),
      command_regex = list_all (\<lambda>c. 32 \<le> (of_char c :: nat) \<and> (of_char c :: nat) < 127),
      zone_mode_code = (\<lambda>m. case m of
                          follow_schedule \<Rightarrow> ''00''
                        | advanced_override \<Rightarrow> ''01''
                        | permanent_override \<Rightarrow> ''02''
                        | countdown_override \<Rightarrow> ''03''
                        | temporary_override \<Rightarrow> ''04''),
      HGI_DEV_ADDR_id = ''18:000730'',
      NON_DEV_ADDR_id = ''--:------'',
      NUL_DEV_ADDR_id = ''63:262142''\<rparr>"

text \<open>A request for the mode of the stored hot water, with a given priority and timestamp.\<close>

definition example_command :: "int option \<Rightarrow> datetime \<Rightarrow> command" where
  "example_command p t =
     \<lparr>verb = RQ, seqn = ''---'', addrs = (''18:000730'', ''01:145038'', ''--:------''),
      code = ''1F41'', len = 1, payload = ''00'', priority = p, dtm = t\<rparr>"

section \<open>Payload parsers (parsers.py)\<close>

subsection \<open>Messages, records and tables\<close>

text \<open>
  A decoded record is a dictionary: the list of its items, in the order of insertion
  and with distinct keys.  \<open>dict_set\<close> is \<open>d[k] = v\<close> and \<open>dict_merge a b\<close> is
  \<open>{**a, **b}\<close>; a dictionary display with distinct keys is the list of its items.
\<close>

type_synonym pydict = "(string \<times> pyval) list"

definition has_key :: "pydict \<Rightarrow> string \<Rightarrow> bool" where
  "has_key d k \<longleftrightarrow> k \<in> set (map fst d)"

fun dict_set :: "pydict \<Rightarrow> string \<Rightarrow> pyval \<Rightarrow> pydict" where
  "dict_set [] k v = [(k, v)]"
| "dict_set (x # d) k v = (if fst x = k then (k, v) # d else x # dict_set d k v)"

definition dict_merge :: "pydict \<Rightarrow> pydict \<Rightarrow> pydict" where
  "dict_merge a b = fold (\<lambda>(k, v) d. dict_set d k v) b a"

datatype presult = RDict pydict | RList "pydict list"

text \<open>
  What the parsers read of a message: \<open>m_idx\<close> is \<open>msg._idx\<close>, \<open>max_zones\<close> is
  \<open>msg._gwy.config.max_zones\<close>, \<open>src_is_dst\<close> is \<open>msg.src is msg.dst\<close>.
\<close>

record msg =
  m_code :: string
  m_verb :: string
  src_type :: string
  dst_type :: string
  src_is_dst :: bool
  m_len :: int
  raw_payload :: string
  has_array :: bool
  has_payload :: bool
  m_idx :: pydict
  max_zones :: int
  m_dtm :: datetime

text \<open>
  The tables of \<open>ramses.py\<close> and \<open>const.py\<close> are parameters: \<open>RAMSES_CODES\<close> gives for
  a code the patterns of its verbs (a pattern is its \<open>match\<close> predicate) and whether
  \<open>RQ_MAY_HAVE_PAYLOAD\<close> is set, \<open>RAMSES_DEVICES\<close> gives for a device type the verbs
  of its codes.  \<open>other_parsers\<close> are the entries of \<open>PAYLOAD_PARSERS\<close> that are not
  written out below, as they are registered.
\<close>

record tables =
  RAMSES_CODES :: "string \<Rightarrow> (string \<Rightarrow> (string \<Rightarrow> bool) option) option"
  RQ_MAY_HAVE_PAYLOAD :: "string \<Rightarrow> bool"
  RAMSES_DEVICES :: "string \<Rightarrow> (string \<Rightarrow> (string \<Rightarrow> bool) option) option"
  DEV_MODE :: bool
  other_parsers :: "string \<Rightarrow> (msg \<Rightarrow> exn + presult) option"

definition assert :: "bool \<Rightarrow> exn + unit" where
  "assert b = (if b then Inr () else Inl AssertionError)"

subsection \<open>Dates and times\<close>

text \<open>
  A \<open>datetime\<close> counts the microseconds since 0001-01-01; the last one is
  9999-12-31T23:59:59.999999.  Adding a \<open>timedelta\<close> beyond the ends raises
  \<open>OverflowError\<close>, and so does a \<open>timedelta\<close> of more than 999999999 days.
\<close>

definition dt_max :: datetime where
  "dt_max = 3652059 * 86400 * 1000000 - 1"

definition timedelta_us :: "int \<Rightarrow> exn + int" where
  "timedelta_us us =
     (if \<bar>us div (86400 * 1000000)\<bar> > 999999999 then Inl OverflowError else Inr us)"

definition dt_add :: "datetime \<Rightarrow> int \<Rightarrow> exn + datetime" where
  "dt_add t us = (if t + us < 0 \<or> t + us > dt_max then Inl OverflowError else Inr (t + us))"

text \<open>\<open>strftime("%H:%M:%S")\<close>\<close>

definition strftime_HMS :: "datetime \<Rightarrow> string" where
  "strftime_HMS t =
     (let s = (t div 1000000) mod 86400
      in fmtd 2 (s div 3600) @ '':'' @ fmtd 2 ((s div 60) mod 60) @ '':'' @ fmtd 2 (s mod 60))"

subsection \<open>\<open>_idx\<close> and \<open>parser_decorator\<close>\<close>

definition idx :: "string \<Rightarrow> msg \<Rightarrow> exn + pydict" where
  "idx seqx m =
     (let result = m_idx m
      in bind
          (if has_key result ''zone_idx'' \<or> has_key result ''parent_idx'' then
             bind (int16 (take 2 (raw_payload m))) (\<lambda>z. assert (z < max_zones m))
           else if has_key result ''domain_id'' then
             assert (seqx \<in> {''F9'', ''FA'', ''FC''})
           else if has_key result ''ufh_idx'' then
             bind (int16 seqx) (\<lambda>z. assert (z < 8))
           else if has_key result ''dhw_idx'' then
             assert (seqx \<in> {''00'', ''01''})
           else if has_key result ''hvac_id'' then
             assert (seqx \<in> {''00'', ''01'', ''21''})
           else if has_key result ''other_idx'' then
             bind (int16 (slice 4 6 (raw_payload m))) (\<lambda>z. assert (z < max_zones m))
           else if result \<noteq> [] then Inl TypeError
           else Inr ())
          (\<lambda>_. Inr result))"

definition check_verb_code_src :: "tables \<Rightarrow> msg \<Rightarrow> exn + unit" where
  "check_verb_code_src t m =
     (case RAMSES_DEVICES t (src_type m) of
        None \<Rightarrow> Inl CorruptPacketError
      | Some dev \<Rightarrow>
          if src_type m = ''18'' then
            (if RAMSES_CODES t (m_code m) = None then Inl CorruptPacketError else Inr ())
          else case dev (m_code m) of
                 None \<Rightarrow> Inl CorruptPacketError
               | Some verbs \<Rightarrow>
                   if \<not> verbs (m_verb m) then Inl CorruptPacketError else Inr ())"

definition check_verb_code_dst :: "tables \<Rightarrow> msg \<Rightarrow> exn + unit" where
  "check_verb_code_dst t m =
     (if ''18'' \<in> {src_type m, dst_type m} \<or> dst_type m \<in> {''--'', ''63''} then Inr ()
      else case RAMSES_DEVICES t (dst_type m) of
             None \<Rightarrow> Inl CorruptPacketError
           | Some dev \<Rightarrow>
               if m_verb m = I_verb then Inr ()
               else if dst_type m @ ''/'' @ m_verb m @ ''/'' @ m_code m
                         = ''01/'' @ RQ @ ''/3EF1'' then Inr ()
               else case dev (m_code m) of
                      None \<Rightarrow> Inl CorruptPacketError
                    | Some verbs \<Rightarrow>
                        if m_verb m @ ''/'' @ m_code m = W_verb @ ''/0001'' then Inr ()
                        else if dst_type m @ ''/'' @ m_verb m @ ''/'' @ m_code m
                                  = ''13/'' @ RQ @ ''/3EF0'' then Inr ()
                        else if m_verb m \<notin> {RQ, RP, W_verb} then Inl KeyError
                        else if \<not> verbs (if m_verb m = RQ then RP
                                          else if m_verb m = RP then RQ else I_verb)
                             then Inl CorruptPacketError
                        else Inr ())"

definition check_verb_code_payload :: "tables \<Rightarrow> msg \<Rightarrow> string \<Rightarrow> exn + unit" where
  "check_verb_code_payload t m p =
     (case RAMSES_CODES t (m_code m) of
        None \<Rightarrow> Inr ()
      | Some c \<Rightarrow>
          (case c (m_verb m) of
             None \<Rightarrow> Inr ()
           | Some regex \<Rightarrow> if \<not> regex p then Inl CorruptPayloadError else Inr ()))"

definition handle_rq :: "tables \<Rightarrow> msg \<Rightarrow> string \<Rightarrow> exn + pydict" where
  "handle_rq t m p =
     (case RAMSES_CODES t (m_code m) of
        None \<Rightarrow> Inl CorruptPacketError
      | Some c \<Rightarrow>
          (case c RQ of
             None \<Rightarrow> Inl CorruptPacketError
           | Some regex \<Rightarrow>
               if \<not> regex p then Inl AssertionError
               else if src_type m \<noteq> ''18a'' \<and> \<not> regex p then Inl CorruptPayloadError
               else idx (take 2 p) m))"

text \<open>
  \<open>wrapper\<close>: the three last branches of the source run the same statement as the
  first.  A list is returned as it is, a dictionary is merged into \<open>msg._idx\<close>.
\<close>

definition parser_decorator :: "tables \<Rightarrow> (msg \<Rightarrow> exn + presult) \<Rightarrow> msg \<Rightarrow> exn + presult" where
  "parser_decorator t func m =
     (let p = raw_payload m
      in if RAMSES_CODES t (m_code m) = None then Inl CorruptPacketError
         else bind (check_verb_code_src t m) (\<lambda>_.
              bind (check_verb_code_dst t m) (\<lambda>_.
              bind (check_verb_code_payload t m p) (\<lambda>_.
              bind (if RQ_MAY_HAVE_PAYLOAD t (m_code m) then
                      (if \<not> has_payload m then Inr (RDict []) else func m)
                    else if m_verb m = RQ then
                      bind (handle_rq t m p) (\<lambda>r. Inr (RDict r))
                    else
                      (if \<not> has_payload m then Inr (RDict []) else func m))
                (\<lambda>result. case result of
                             RList l \<Rightarrow> Inr (RList l)
                           | RDict d \<Rightarrow> Inr (RDict (dict_merge (m_idx m) d)))))))"

subsection \<open>Parsers\<close>

text \<open>\<open>parser_0008\<close>, relay demand; its own \<open>_idx\<close> hides the one of the module.\<close>

definition parser_0008_idx :: "string \<Rightarrow> msg \<Rightarrow> exn + pydict" where
  "parser_0008_idx p m =
     (if m_verb m = I_verb \<and> src_type m \<in> {''01'', ''02''} \<and> src_is_dst m then
        (if take 2 p \<in> {''F9'', ''FA'', ''FC''} then Inr [(''domain_id'', VStr (take 2 p))]
         else bind (int16 (take 2 p)) (\<lambda>z.
              bind (assert (z < max_zones m)) (\<lambda>_.
                Inr [(''zone_idx'', VStr (take 2 p))])))
      else bind (assert (take 2 p = ''00'' \<or> m_verb m = ''RQ'')) (\<lambda>_. Inr []))"

definition parser_0008 :: "msg \<Rightarrow> exn + presult" where
  "parser_0008 m =
     (let p = raw_payload m
      in if src_type m = ''31'' \<and> m_len m = 13 then
           Inr (RDict [(''ordinal'', VStr (''0x'' @ slice 2 8 p)), (''blob'', VStr (drop 8 p))])
         else bind (assert (m_len m = 2)) (\<lambda>_.
              bind (parser_0008_idx (take 2 p) m) (\<lambda>i.
              bind (percent (slice 2 4 p)) (\<lambda>d.
                Inr (RDict (dict_merge i [(''relay_demand'', d)]))))))"

text \<open>\<open>parser_1260\<close>, temperature of the stored hot water\<close>

definition parser_1260 :: "msg \<Rightarrow> exn + presult" where
  "parser_1260 m =
     (let p = raw_payload m
      in if m_verb m = RQ \<and> m_len m \<le> 2 then bind (idx (take 2 p) m) (\<lambda>r. Inr (RDict r))
         else bind (assert (m_len m = 3)) (\<lambda>_.
              bind (assert (take 2 p = ''00'')) (\<lambda>_.
              bind (temp (drop 2 p)) (\<lambda>v.
                Inr (RDict [(''temperature'', v)])))))"

text \<open>\<open>parser_1f09\<close>, system synchronisation\<close>

definition parser_1f09 :: "msg \<Rightarrow> exn + presult" where
  "parser_1f09 m =
     (let p = raw_payload m
      in bind (assert (m_len m = 3)) (\<lambda>_.
         bind (assert (take 2 p \<in> {''00'', ''01'', ''F8'', ''FF''})) (\<lambda>_.
         bind (int16 (slice 2 6 p)) (\<lambda>n.
         bind (timedelta_us (n * 100000)) (\<lambda>td.
         bind (dt_add (m_dtm m) td) (\<lambda>next_sync.
           Inr (RDict [(''remaining_seconds'', VFloat (of_int n / 10)),
                       (''_next_sync'', VStr (strftime_HMS next_sync))])))))))"

text \<open>\<open>parser_2249\<close>, setpoint now and next\<close>

definition parser_2249 :: "msg \<Rightarrow> exn + presult" where
  "parser_2249 m =
     (let seqx = raw_payload m
      in bind (assert (m_len m = 7)) (\<lambda>_.
         bind (int16 (drop 10 seqx)) (\<lambda>minutes.
         bind (timedelta_us (minutes * 60000000)) (\<lambda>td.
         bind (dt_add (m_dtm m) td) (\<lambda>next_setpoint.
         bind (idx (take 2 seqx) m) (\<lambda>i.
         bind (temp (slice 2 6 seqx)) (\<lambda>now.
         bind (temp (slice 6 10 seqx)) (\<lambda>nxt.
           Inr (RDict (dict_merge i
                  [(''setpoint_now'', now), (''setpoint_next'', nxt),
                   (''minutes_remaining'', VInt minutes),
                   (''_next_setpoint'', VStr (strftime_HMS next_setpoint))]))))))))))"

text \<open>\<open>parser_30c9\<close>, temperature of a device or of zones\<close>

definition parser_30c9_parser :: "string \<Rightarrow> exn + pydict" where
  "parser_30c9_parser seqx =
     bind (temp (drop 2 seqx)) (\<lambda>v.
       Inr [(''zone_idx'', VStr (take 2 seqx)), (''temperature'', v)])"

text \<open>The slices \<open>payload[i : i + n] for i in range(0, len(payload), n)\<close>, for \<open>n > 0\<close>.\<close>

fun chunks :: "nat \<Rightarrow> nat \<Rightarrow> string \<Rightarrow> string list" where
  "chunks 0 n s = []"
| "chunks (Suc k) n s = (if s = [] then [] else take n s # chunks k n (drop n s))"

fun mapM :: "('a \<Rightarrow> exn + 'b) \<Rightarrow> 'a list \<Rightarrow> exn + 'b list" where
  "mapM f [] = Inr []"
| "mapM f (x # xs) = bind (f x) (\<lambda>y. bind (mapM f xs) (\<lambda>ys. Inr (y # ys)))"

definition parser_30c9 :: "msg \<Rightarrow> exn + presult" where
  "parser_30c9 m =
     (let p = raw_payload m
      in if has_array m then
           bind (mapM parser_30c9_parser (chunks (length p) 6 p)) (\<lambda>l. Inr (RList l))
         else bind (assert (m_len m = 3)) (\<lambda>_.
              bind (parser_30c9_parser p) (\<lambda>r. Inr (RDict r))))"

text \<open>\<open>parser_unknown\<close>\<close>

definition parser_unknown :: "msg \<Rightarrow> exn + presult" where
  "parser_unknown m = Inl NotImplementedError"

subsection \<open>\<open>parse_payload\<close>\<close>

definition PAYLOAD_PARSERS :: "tables \<Rightarrow> string \<Rightarrow> (msg \<Rightarrow> exn + presult) option" where
  "PAYLOAD_PARSERS t c =
     (if c = ''0008'' then Some (parser_decorator t parser_0008)
      else if c = ''1260'' then Some (parser_decorator t parser_1260)
      else if c = ''1F09'' then Some (parser_decorator t parser_1f09)
      else if c = ''2249'' then Some (parser_decorator t parser_2249)
      else if c = ''30C9'' then Some (parser_decorator t parser_30c9)
      else other_parsers t c)"

text \<open>
  The log: the level of the one record that a handler writes.  The result is the value
  of \<open>result\<close> at the \<open>return\<close>, or the exception that no handler names.
\<close>

datatype log_level = WARNING | EXCEPTION

text \<open>\<open>PAYLOAD_PARSERS.get(msg.code, parser_unknown)\<close>\<close>

definition get_parser :: "tables \<Rightarrow> string \<Rightarrow> msg \<Rightarrow> exn + presult" where
  "get_parser t c =
     (case PAYLOAD_PARSERS t c of
        None \<Rightarrow> parser_decorator t parser_unknown
      | Some f \<Rightarrow> f)"

text \<open>
  A parser returns a dictionary or a list, so that the assertion on the type of
  \<open>result\<close> holds whenever the parser returns.
\<close>

definition parse_payload :: "tables \<Rightarrow> msg \<Rightarrow> (exn + presult option) \<times> log_level list" where
  "parse_payload t m =
     (case get_parser t (m_code m) m of
        Inr result \<Rightarrow> (Inr (Some result), [])
      | Inl e \<Rightarrow>
          if e = AssertionError then
            (Inr None, [if DEV_MODE t \<and> src_type m \<noteq> ''18'' then EXCEPTION else WARNING])
          else if e \<in> {CorruptPacketError, CorruptPayloadError} then
            (Inr None, [if DEV_MODE t then EXCEPTION else WARNING])
          else if e \<in> {AttributeError, KeyError, IndexError, TypeError, ValueError} then
            (Inr None, [EXCEPTION])
          else if e = NotImplementedError then (Inr None, [WARNING])
          else (Inl e, []))"

text \<open>The classes that the \<open>except\<close> clauses of \<open>parse_payload\<close> name.\<close>

definition handled :: "exn \<Rightarrow> bool" where
  "handled e \<longleftrightarrow>
     e \<in> {AssertionError, CorruptPacketError, CorruptPayloadError, AttributeError, KeyError,
          IndexError, TypeError, ValueError, NotImplementedError}"

subsection \<open>An instance of the tables\<close>

text \<open>
  The instance used to evaluate the parsers on examples: the controller (type 01) sends
  the codes below with the verbs \<open>I\<close> and \<open>RP\<close>, and a payload matches when it is made
  of an even number of hexadecimal digits.
\<close>

definition example_tables :: tables where
  "example_tables =
     \<lparr>RAMSES_CODES = (\<lambda>c. if c \<in> {''0008'', ''1260'', ''1F09'', ''2249'', ''30C9'', ''0001''}
                           then Some (\<lambda>v. if v \<in> {I_verb, RP}
                                           then Some (\<lambda>p. is_hex p \<and> even (length p))
                                           else None)
                           else None),
      RQ_MAY_HAVE_PAYLOAD = (\<lambda>c. False),
      RAMSES_DEVICES = (\<lambda>d. if d = ''01''
                             then Some (\<lambda>c. if c \<in> {''0008'', ''1260'', ''1F09'', ''2249'',
                                                      ''30C9'', ''0001''}
                                             then Some (\<lambda>v. v \<in> {I_verb, RP}) else None)
                             else None),
      DEV_MODE = False,
      other_parsers = (\<lambda>c. None)\<rparr>"

text \<open>A frame of the controller, stamped 9999-12-31T23:00:00.\<close>

definition late_sync :: msg where
  "late_sync =
     \<lparr>m_code = ''1F09'', m_verb = I_verb, src_type = ''01'', dst_type = ''01'',
      src_is_dst = True, m_len = 3, raw_payload = ''00FFFF'', has_array = False,
      has_payload = True, m_idx = [], max_zones = 12,
      m_dtm = dt_max - 3599999999\<rparr>"

section \<open>Reading strings of hexadecimal digits\<close>

lemma hex_digits_us_hex:
  "is_hex s \<Longrightarrow> s \<noteq> [] \<or> prev \<Longrightarrow>
     hex_digits_us s prev acc
       = Some (foldl (\<lambda>acc c. 16 * acc + (case hexdigit c of None \<Rightarrow> 0 | Some d \<Rightarrow> d)) acc s)"
proof (induction s arbitrary: prev acc)
  case Nil
  then show ?case by simp
next
  case (Cons c cs)
  from Cons.prems(1) obtain d where d: "hexdigit c = Some d" and cs: "is_hex cs"
    by (auto simp: is_hex_def)
  have "c \<noteq> CHR ''_''"
    using d by (auto simp: hexdigit_def)
  with d cs Cons.IH [of True "16 * acc + d"] show ?case
    by simp
qed

lemma is_hex_not_space: "hexdigit c \<noteq> None \<Longrightarrow> \<not> is_space c"
  by (auto simp: hexdigit_def is_space_def Let_def split: if_splits)

lemma strip_space_hex: "is_hex s \<Longrightarrow> strip_space s = s"
proof (cases s rule: rev_cases)
  case Nil
  then show ?thesis by (simp add: strip_space_def)
next
  case (snoc ys y)
  assume h: "is_hex s"
  have last: "\<not> is_space y"
    using h snoc is_hex_not_space [of y] by (auto simp: is_hex_def)
  have first: "dropWhile is_space s = s"
  proof (cases s)
    case Nil
    then show ?thesis by simp
  next
    case (Cons x xs)
    with h is_hex_not_space [of x] have "\<not> is_space x"
      by (auto simp: is_hex_def)
    with Cons show ?thesis by simp
  qed
  show ?thesis
    using last by (simp add: strip_space_def first) (simp add: snoc)
qed

lemma drop_sign_hex: "is_hex s \<Longrightarrow> drop_sign s = s \<and> \<not> is_neg s"
  by (cases s) (auto simp: is_hex_def hexdigit_def)

lemma drop_prefix_hex: "is_hex s \<Longrightarrow> drop_prefix s = s"
  by (cases s rule: drop_prefix.cases) (auto simp: is_hex_def hexdigit_def)

lemma int16_hex:
  assumes "is_hex s" and "s \<noteq> []"
  shows "int16 s = Inr (int (hexval s))"
proof -
  have "hex_digits_us s False 0 = Some (hexval s)"
    using hex_digits_us_hex [OF assms(1), of False 0] assms(2) by (simp add: hexval_def)
  then show ?thesis
    using assms(1)
    by (simp add: int16_def strip_space_hex drop_sign_hex drop_prefix_hex)
qed


lemma hexval_snoc: "hexval (s @ [c]) = 16 * hexval s + (case hexdigit c of None \<Rightarrow> 0 | Some d \<Rightarrow> d)"
  by (simp add: hexval_def)

lemma hexdigit_le: "(case hexdigit c of None \<Rightarrow> 0 | Some d \<Rightarrow> d) \<le> 15"
  by (auto simp: hexdigit_def Let_def)

lemma hexval_bound: "hexval s < 16 ^ length s"
proof (induction s rule: rev_induct)
  case Nil
  then show ?case by (simp add: hexval_def)
next
  case (snoc c s)
  have "hexval (s @ [c]) \<le> 16 * hexval s + 15"
    using hexdigit_le [of c] by (simp add: hexval_snoc)
  also have "\<dots> < 16 * 16 ^ length s"
    using snoc.IH by simp
  finally show ?case by simp
qed

lemma sint16_of_nat:
  assumes "n < 65536"
  shows "sint (word_of_nat n :: 16 word) = (if int n < 2 ^ 15 then int n else int n - 2 ^ 16)"
proof -
  have "sint (word_of_nat n :: 16 word) = sint (word_of_int (int n) :: 16 word)"
    by simp
  also have "\<dots> = (int n + 32768) mod 65536 - 32768"
    unfolding int_word_sint by simp
  also have "\<dots> = (if int n < 32768 then int n else int n - 65536)"
  proof (cases "int n < 32768")
    case True
    then have "(int n + 32768) mod 65536 = int n + 32768"
      by (intro mod_pos_pos_trivial) auto
    with True show ?thesis by simp
  next
    case False
    have e: "int n + 32768 = (int n - 32768) + 65536" by arith
    have "(int n + 32768) mod 65536 = (int n - 32768) mod 65536"
      unfolding e by (rule mod_add_self2)
    also have "\<dots> = int n - 32768"
      using False assms by (intro mod_pos_pos_trivial) auto
    finally show ?thesis using False by simp
  qed
  finally show ?thesis by simp
qed

lemma hex_not_ascii_space: "hexdigit c \<noteq> None \<Longrightarrow> \<not> is_ascii_space c"
  by (auto simp: hexdigit_def is_ascii_space_def Let_def split: if_splits)

lemma fromhex_hex:
  "is_hex v \<Longrightarrow> even (length v) \<Longrightarrow> \<exists>bs. fromhex v = Inr bs \<and> 2 * length bs = length v"
proof (induction v rule: fromhex.induct)
  case 1
  then show ?case by simp
next
  case (2 c)
  then show ?case by simp
next
  case (3 a b cs)
  from "3.prems" obtain x y where x: "hexdigit a = Some x" and y: "hexdigit b = Some y"
    and cs: "is_hex cs" "even (length cs)"
    by (auto simp: is_hex_def)
  have sp: "\<not> is_ascii_space a"
    using x hex_not_ascii_space [of a] by simp
  from "3.IH"(2) [OF sp _ x y] cs obtain bs where "fromhex cs = Inr bs" "2 * length bs = length cs"
    by auto
  with sp x y show ?case by simp
qed

section \<open>Facts about the constructors\<close>

lemma bind_Inr [simp]: "bind (Inr x) f = f x"
  by (simp add: bind_def)

lemma bind_Inl [simp]: "bind (Inl e) f = Inl e"
  by (simp add: bind_def)

lemma normalise_both_faults:
  "\<exists>e. bind (normalise_zone_mode mode target (Some u) (Some d))
           (\<lambda>m. normalise_duration m target (Some u) (Some d)) = Inl e
       \<and> e \<in> {ValueError, KeyError}"
proof (cases "normalise_zone_mode mode target (Some u) (Some d)")
  case (Inl e)
  then have "e \<in> {ValueError, KeyError}"
    by (auto simp: normalise_zone_mode_def split: if_splits option.splits mode_arg.splits sum.splits)
  with Inl show ?thesis by (simp add: bind_def)
next
  case (Inr m)
  have "normalise_duration m target (Some u) (Some d) = Inl ValueError"
    by (simp add: normalise_duration_def normalise_duration_locals_def)
  with Inr show ?thesis by (simp add: bind_def)
qed

lemma normalise_temporary_explicit:
  "target \<noteq> VNone \<Longrightarrow>
     normalise_zone_mode (Some (ModeKey temporary_override)) target None None
       = Inr temporary_override"
  by (simp add: normalise_zone_mode_def truthy_dt_def truthy_int_def)

lemma normalise_duration_temporary:
  "normalise_duration_locals temporary_override None None = Inr (advanced_override, None, None)"
  "normalise_duration temporary_override target None None = Inr (None, None)"
  by (simp_all add: normalise_duration_def normalise_duration_locals_def)

lemma set_zone_mode_body_both:
  "\<exists>e. set_zone_mode_body h now ctl_id mode setpoint (Some u) (Some d) kw z = Inl e
       \<and> e \<in> {ValueError, KeyError, TypeError}"
proof (cases "normalise_zone_mode mode setpoint (Some u) (Some d)")
  case (Inl e)
  then have "e \<in> {ValueError, KeyError}"
    using normalise_both_faults [of mode setpoint u d] by simp
  with Inl show ?thesis by (auto simp: set_zone_mode_body_def)
next
  case (Inr m)
  have "normalise_duration m setpoint (Some u) (Some d) = Inl ValueError"
    by (simp add: normalise_duration_def normalise_duration_locals_def)
  with Inr show ?thesis by (simp add: set_zone_mode_body_def)
qed

text \<open>A number of more than \<open>k\<close> hexadecimal digits is formatted in more than \<open>k\<close> characters.\<close>

lemma hex_str_length: "16 ^ k \<le> n \<Longrightarrow> k < length (hex_str n)"
proof (induction k arbitrary: n)
  case 0
  show ?case by (subst hex_str.simps) (simp del: hex_str.simps)
next
  case (Suc k)
  have a: "(1::nat) \<le> 16 ^ k" by simp
  from Suc.prems have b: "16 * 16 ^ k \<le> n" by simp
  from a b have n: "\<not> n < 16" by linarith
  from b have d: "16 ^ k \<le> n div 16" by simp
  from Suc.IH [OF d] n show ?case by (subst hex_str.simps) (simp del: hex_str.simps)
qed

lemma fmtX_length: "0 \<le> n \<Longrightarrow> 16 ^ k \<le> nat n \<Longrightarrow> k < length (fmtX w n)"
  using hex_str_length [of k "nat n"] by (simp add: fmtX_def zfill_def del: hex_str.simps)

text \<open>
  A log index of 97 hexadecimal digits gives a payload of 97 characters, which fails
  the self-check of \<open>__init__\<close>.
\<close>

lemma log_entry_fails:
  "get_system_log_entry_body example_helpers 0 ''01:145038'' (ZInt (16 ^ 96)) no_kwargs
     = Inl ValueError"
proof -
  define n :: int where "n = 16 ^ 96"
  have "0 \<le> n" "16 ^ 96 \<le> nat n" by (simp_all add: n_def nat_power_eq)
  then have l: "\<not> length (fmtX 6 n) \<le> 96" using fmtX_length [of n 96 6] by simp
  have a: "pkt_addrs example_helpers
             ((case from_id no_kwargs of None \<Rightarrow> HGI_DEV_ADDR_id example_helpers | Some f \<Rightarrow> f)
                @ '' '' @ ''01:145038'' @ '' '' @ NON_DEV_ADDR_id example_helpers)
           = Inr (''18:000730'', ''01:145038'', ''--:------'')"
    by (simp add: example_helpers_def no_kwargs_def)
  have "get_system_log_entry_body example_helpers 0 ''01:145038'' (ZInt n) no_kwargs
     = Inl ValueError"
    using a l by (simp add: get_system_log_entry_body_def Command_init_def is_valid_def Let_def)
  then show ?thesis by (simp only: n_def)
qed

section \<open>Facts about the parsers\<close>

lemma bind_eq_Inl:
  "bind r f = Inl e \<longleftrightarrow> r = Inl e \<or> (\<exists>x. r = Inr x \<and> f x = Inl e)"
  by (cases r) (simp_all add: bind_def)

lemma assert_eq_Inl: "assert b = Inl e \<longleftrightarrow> \<not> b \<and> e = AssertionError"
  by (auto simp: assert_def)

lemma int16_Inl: "int16 s = Inl e \<Longrightarrow> e = ValueError"
  by (auto simp: int16_def Let_def split: option.splits)

lemma temp_Inl: "temp v = Inl e \<Longrightarrow> e \<in> {AssertionError, ValueError}"
  by (auto simp: temp_def split: if_splits sum.splits dest: int16_Inl)

lemma percent_Inl: "percent v = Inl e \<Longrightarrow> e \<in> {AssertionError, ValueError}"
  by (auto simp: percent_def split: if_splits sum.splits dest: int16_Inl)

lemma idx_Inl: "idx seqx m = Inl e \<Longrightarrow> e \<in> {AssertionError, ValueError, TypeError}"
  by (auto simp: idx_def Let_def bind_eq_Inl assert_eq_Inl split: if_splits dest: int16_Inl)

lemma mapM_Inl: "mapM f xs = Inl e \<Longrightarrow> \<exists>x \<in> set xs. f x = Inl e"
  by (induction xs) (auto simp: bind_eq_Inl)

lemma parser_0008_Inl: "parser_0008 m = Inl e \<Longrightarrow> e \<in> {AssertionError, ValueError}"
  by (auto simp: parser_0008_def parser_0008_idx_def Let_def bind_eq_Inl assert_eq_Inl
      split: if_splits dest: int16_Inl percent_Inl)

lemma parser_1260_Inl:
  "parser_1260 m = Inl e \<Longrightarrow> e \<in> {AssertionError, ValueError, TypeError}"
  by (auto simp: parser_1260_def Let_def bind_eq_Inl assert_eq_Inl
      split: if_splits dest: idx_Inl temp_Inl)

lemma parser_30c9_Inl: "parser_30c9 m = Inl e \<Longrightarrow> e \<in> {AssertionError, ValueError}"
  by (auto simp: parser_30c9_def parser_30c9_parser_def Let_def bind_eq_Inl assert_eq_Inl
      split: if_splits dest!: mapM_Inl temp_Inl)

lemma merged_not_Inl:
  "(case result of RList l \<Rightarrow> Inr (RList l) | RDict d \<Rightarrow> Inr (RDict (dict_merge i d)))
     \<noteq> (Inl e :: exn + presult)"
  by (cases result) simp_all

lemma parser_decorator_Inl:
  assumes "parser_decorator t func m = Inl e"
  shows "e \<in> {CorruptPacketError, CorruptPayloadError, KeyError, AssertionError, ValueError,
              TypeError}
         \<or> func m = Inl e"
proof -
  have s: "check_verb_code_src t m = Inl e \<Longrightarrow> e = CorruptPacketError"
    by (auto simp: check_verb_code_src_def split: option.splits if_splits)
  have d: "check_verb_code_dst t m = Inl e \<Longrightarrow> e \<in> {CorruptPacketError, KeyError}"
    by (auto simp: check_verb_code_dst_def split: option.splits if_splits)
  have p: "\<And>p. check_verb_code_payload t m p = Inl e \<Longrightarrow> e = CorruptPayloadError"
    by (auto simp: check_verb_code_payload_def split: option.splits if_splits)
  have h: "\<And>p. handle_rq t m p = Inl e \<Longrightarrow>
             e \<in> {CorruptPacketError, CorruptPayloadError, AssertionError, ValueError, TypeError}"
    by (auto simp: handle_rq_def split: option.splits if_splits dest: idx_Inl)
  show ?thesis
    using assms s d p h
    by (auto simp: parser_decorator_def Let_def bind_eq_Inl merged_not_Inl
        split: if_splits)
qed

lemma parse_payload_handled:
  assumes "get_parser t (m_code m) m = Inl e" and "handled e"
  shows "fst (parse_payload t m) = Inr None \<and> length (snd (parse_payload t m)) = 1"
  using assms by (auto simp: parse_payload_def handled_def)

lemma get_parser_handled:
  assumes "m_code m \<in> {''0008'', ''1260'', ''30C9''} \<or> PAYLOAD_PARSERS t (m_code m) = None"
    and "get_parser t (m_code m) m = Inl e"
  shows "handled e"
proof -
  consider "m_code m = ''0008''" | "m_code m = ''1260''" | "m_code m = ''30C9''"
    | "PAYLOAD_PARSERS t (m_code m) = None"
    using assms(1) by auto
  then show ?thesis
  proof cases
    case 1
    with assms(2) have "parser_decorator t parser_0008 m = Inl e"
      by (simp add: get_parser_def PAYLOAD_PARSERS_def)
    from parser_decorator_Inl [OF this] parser_0008_Inl [of m e] show ?thesis
      by (auto simp: handled_def)
  next
    case 2
    with assms(2) have "parser_decorator t parser_1260 m = Inl e"
      by (simp add: get_parser_def PAYLOAD_PARSERS_def)
    from parser_decorator_Inl [OF this] parser_1260_Inl [of m e] show ?thesis
      by (auto simp: handled_def)
  next
    case 3
    with assms(2) have "parser_decorator t parser_30c9 m = Inl e"
      by (simp add: get_parser_def PAYLOAD_PARSERS_def)
    from parser_decorator_Inl [OF this] parser_30c9_Inl [of m e] show ?thesis
      by (auto simp: handled_def)
  next
    case 4
    with assms(2) have "parser_decorator t parser_unknown m = Inl e"
      by (simp add: get_parser_def)
    from parser_decorator_Inl [OF this] show ?thesis
      by (auto simp: handled_def parser_unknown_def)
  qed
qed

lemma sync_overflows: "parser_1f09 late_sync = Inl OverflowError"
proof -
  have n: "int16 (slice 2 6 ''00FFFF'') = Inr 65535"
    by (simp add: slice_def int16_def strip_space_def is_space_def hexdigit_def)
  show ?thesis
    using n by (simp add: parser_1f09_def late_sync_def assert_def bind_def
        timedelta_us_def dt_add_def dt_max_def)
qed

section \<open>Properties of the primitive decoders\<close>

text \<open>
  C4.  On four hexadecimal digits \<open>_temp\<close> gives \<open>None\<close> for \<open>31FF\<close> and
  \<open>7FFF\<close>, the boolean \<open>False\<close> (which is not \<open>None\<close>) for \<open>7EFF\<close>, and for every
  other input the value of the digits read as a signed 16-bit integer in two's
  complement, divided by 100.
\<close>

theorem temp_decodes:
  assumes "is_hex v" and "length v = 4"
  shows "temp v =
           (if v = ''31FF'' \<or> v = ''7FFF'' then Inr VNone
            else if v = ''7EFF'' then Inr (VBool False)
            else Inr (VFloat (of_int (sint (word_of_nat (hexval v) :: 16 word)) / 100)))
         \<and> VBool False \<noteq> VNone"
proof -
  have ne: "v \<noteq> []" using assms(2) by auto
  have "hexval v < 65536"
    using hexval_bound [of v] assms(2) by simp
  then show ?thesis
    using assms(2) by (simp add: temp_def int16_hex [OF assms(1) ne] sint16_of_nat)
qed

theorem temp_decodes_witness:
  "is_hex ''FF9C'' \<and> length ''FF9C'' = 4 \<and> temp ''FF9C'' = Inr (VFloat (- 1))
   \<and> temp ''7EFF'' = Inr (VBool False) \<and> temp ''31FF'' = Inr VNone"
proof -
  have h: "is_hex ''FF9C''" "is_hex ''7EFF''" "is_hex ''31FF''"
    by (simp_all add: is_hex_def hexdigit_def)
  have v: "hexval ''FF9C'' = 65436" by (simp add: hexval_def hexdigit_def)
  show ?thesis
    using h temp_decodes [OF h(1)] temp_decodes [OF h(2)] temp_decodes [OF h(3)]
    by (simp add: v)
qed

text \<open>
  C7.  On two hexadecimal digits \<open>_percent\<close> gives \<open>None\<close> for \<open>EF\<close>, \<open>FE\<close> and
  \<open>FF\<close>; any other input above 200 fails the assertion; otherwise the result is the
  value divided by 200, so that \<open>C8\<close> is 1 and \<open>C9\<close> is a fault.
\<close>

theorem percent_decodes:
  assumes "is_hex v" and "length v = 2"
  shows "percent v =
           (if v = ''EF'' \<or> v = ''FE'' \<or> v = ''FF'' then Inr VNone
            else if hexval v > 200 then Inl AssertionError
            else Inr (VFloat (of_nat (hexval v) / 200)))"
proof -
  have ne: "v \<noteq> []" using assms(2) by auto
  show ?thesis
    using assms(2) by (auto simp add: percent_def int16_hex [OF assms(1) ne])
qed

theorem percent_decodes_witness:
  "is_hex ''C8'' \<and> length ''C8'' = 2 \<and> percent ''C8'' = Inr (VFloat 1)
   \<and> is_hex ''C9'' \<and> percent ''C9'' = Inl AssertionError
   \<and> is_hex ''FE'' \<and> percent ''FE'' = Inr VNone"
proof -
  have h: "is_hex ''C8''" "is_hex ''C9''" "is_hex ''FE''"
    by (simp_all add: is_hex_def hexdigit_def)
  have v: "hexval ''C8'' = 200" "hexval ''C9'' = 201"
    by (simp_all add: hexval_def hexdigit_def)
  show ?thesis
    using h percent_decodes [OF h(1)] percent_decodes [OF h(2)] percent_decodes [OF h(3)]
    by (simp add: v)
qed


text \<open>
  \<open>_double\<close> reads two digits, \<open>_flag8\<close> reads the first of two bytes, and \<open>_str\<close>
  takes one byte or two.
\<close>

theorem decoder_length_counterexample:
  "length ''7F'' \<noteq> (4 :: nat) \<and> double_dec ''7F'' 1 = Inr (VInt 127)
   \<and> length ''0102'' \<noteq> (2 :: nat)
   \<and> flag8 ''0102'' = Inr (VList [VInt 1, VInt 0, VInt 0, VInt 0, VInt 0, VInt 0, VInt 0, VInt 0])
   \<and> str_dec ''41'' = Inr (VStr ''A'') \<and> str_dec ''4142'' = Inr (VStr ''AB'')"
  by code_simp

text \<open>
  C6, as the code has it.  The decoders of booleans, percentages, temperatures and dates
  fail an assertion on every input that has not their width (2, 2, 4 and 8 characters):
  such an input is never read as an absent value.  The decoder of strings has no width:
  it decodes any whole number of bytes.
\<close>

theorem decoder_length_faults:
  "(length v \<noteq> 2 \<longrightarrow> bool_dec v = Inl AssertionError \<and> percent v = Inl AssertionError)
   \<and> (length v \<noteq> 4 \<longrightarrow> temp v = Inl AssertionError)
   \<and> (length v \<noteq> 8 \<longrightarrow> date_dec v = Inl AssertionError)
   \<and> (is_hex v \<and> even (length v) \<longrightarrow> \<not> isl (str_dec v))"
proof -
  have "is_hex v \<and> even (length v) \<longrightarrow> \<not> isl (str_dec v)"
    using fromhex_hex [of v] by (auto simp: str_dec_def Let_def split: if_splits)
  then show ?thesis
    by (auto simp: bool_dec_def percent_def temp_def date_dec_def)
qed

theorem decoder_length_faults_witness:
  "length ''C'' \<noteq> (2 :: nat) \<and> bool_dec ''C'' = Inl AssertionError
   \<and> percent ''C'' = Inl AssertionError
   \<and> length ''7FF'' \<noteq> (4 :: nat) \<and> temp ''7FF'' = Inl AssertionError
   \<and> length ''FFFFFF'' \<noteq> (8 :: nat) \<and> date_dec ''FFFFFF'' = Inl AssertionError
   \<and> is_hex ''4142'' \<and> even (length ''4142'') \<and> \<not> isl (str_dec ''4142'')"
proof -
  have h: "is_hex ''4142''"
    by (simp add: is_hex_def hexdigit_def)
  show ?thesis
    using h decoder_length_faults [of "''C''"] decoder_length_faults [of "''7FF''"]
      decoder_length_faults [of "''FFFFFF''"] decoder_length_faults [of "''4142''"]
    by simp
qed

section \<open>Properties of the command constructors\<close>

text \<open>
  The constructor \<open>set_dhw_params\<close> with a setpoint of 100 fails its assertion; the
  decorator catches the \<open>AssertionError\<close> and the call returns \<open>None\<close>.
\<close>

theorem builder_fault_counterexample:
  "set_dhw_params example_helpers 0 ''01:145038'' (Some 100) None None no_kwargs = Inr None
   \<and> set_dhw_params_body example_helpers 0 ''01:145038'' (Some 100) None None no_kwargs
       = Inl AssertionError"
  by (simp add: set_dhw_params_def set_dhw_params_body_def device_decorator_def
      vc_wrapper_def vc_caught_def)

text \<open>
  C1, as the code has it.  A constructor under \<open>validate_command\<close> does not raise the
  faults of its body to the caller: an out-of-range parameter (\<open>AssertionError\<close>), an
  illegal combination of mode, until and duration (\<open>ValueError\<close>, \<open>KeyError\<close>,
  \<open>TypeError\<close>) and a frame that fails the self-check (\<open>ValueError\<close>) are caught, and
  the constructor returns \<open>None\<close>.  An exception of another class, and the
  \<open>ValueError\<close> of a zone index that is no number, which \<open>zone_decorator\<close> converts
  outside the \<open>try\<close>, are raised to the caller.
\<close>

theorem builder_faults_swallowed:
  "(vc_caught e \<longrightarrow> device_decorator (Inl e :: exn + command) = Inr None
                   \<and> zone_decorator (ZInt z) (\<lambda>_. Inl e :: exn + command) = Inr None)
   \<and> (\<not> vc_caught e \<longrightarrow> device_decorator (Inl e :: exn + command) = Inl e
                   \<and> zone_decorator (ZInt z) (\<lambda>_. Inl e :: exn + command) = Inl e)
   \<and> (int16 s = Inl ValueError \<and> s \<noteq> ''HW'' \<longrightarrow>
        zone_decorator (ZStr s) (fcn :: int \<Rightarrow> exn + command) = Inl ValueError)
   \<and> (\<not> (30 \<le> sp \<and> sp \<le> 85) \<longrightarrow>
        set_dhw_params h now ctl_id (Some sp) overrun differential kw = Inr None)
   \<and> set_zone_mode h now ctl_id (ZInt z) mode setpoint (Some u) (Some d) kw = Inr None
   \<and> (pkt_addrs h ((case from_id kw of None \<Rightarrow> HGI_DEV_ADDR_id h | Some f \<Rightarrow> f)
                      @ '' '' @ ctl_id @ '' '' @ NON_DEV_ADDR_id h) = Inr a
        \<and> \<not> (2 \<le> length p \<and> length p \<le> 96) \<longrightarrow>
        device_decorator (Command_init h now v c p ctl_id kw) = Inr None)"
proof -
  have 1: "vc_caught e \<longrightarrow> device_decorator (Inl e :: exn + command) = Inr None
                   \<and> zone_decorator (ZInt z) (\<lambda>_. Inl e :: exn + command) = Inr None"
    by (auto simp: device_decorator_def zone_decorator_def vc_wrapper_def)
  have b: "\<not> vc_caught e \<longrightarrow> device_decorator (Inl e :: exn + command) = Inl e
                   \<and> zone_decorator (ZInt z) (\<lambda>_. Inl e :: exn + command) = Inl e"
    by (auto simp: device_decorator_def zone_decorator_def vc_wrapper_def)
  have c: "int16 s = Inl ValueError \<and> s \<noteq> ''HW'' \<longrightarrow>
        zone_decorator (ZStr s) (fcn :: int \<Rightarrow> exn + command) = Inl ValueError"
    by (simp add: zone_decorator_def)
  have 2: "\<not> (30 \<le> sp \<and> sp \<le> 85) \<longrightarrow>
        set_dhw_params h now ctl_id (Some sp) overrun differential kw = Inr None"
    by (simp add: set_dhw_params_def set_dhw_params_body_def device_decorator_def
        vc_wrapper_def vc_caught_def Let_def)
  have 3: "set_zone_mode h now ctl_id (ZInt z) mode setpoint (Some u) (Some d) kw = Inr None"
    using set_zone_mode_body_both [of h now ctl_id mode setpoint u d kw z]
    by (auto simp: set_zone_mode_def zone_decorator_def vc_wrapper_def vc_caught_def)
  have 4: "pkt_addrs h ((case from_id kw of None \<Rightarrow> HGI_DEV_ADDR_id h | Some f \<Rightarrow> f)
                      @ '' '' @ ctl_id @ '' '' @ NON_DEV_ADDR_id h) = Inr a
        \<and> \<not> (2 \<le> length p \<and> length p \<le> 96) \<longrightarrow>
        device_decorator (Command_init h now v c p ctl_id kw) = Inr None"
    by (auto simp: Command_init_def is_valid_def device_decorator_def vc_wrapper_def
        vc_caught_def Let_def)
  from 1 b c 2 3 4 show ?thesis by blast
qed

theorem builder_faults_swallowed_witness:
  "vc_caught ValueError \<and> \<not> (30 \<le> (100 :: rat) \<and> (100 :: rat) \<le> 85)
   \<and> set_dhw_params example_helpers 0 ''01:145038'' (Some 100) None None no_kwargs = Inr None
   \<and> set_zone_mode example_helpers 0 ''01:145038'' (ZInt 1) None (VFloat 20) (Some 0) (Some 60)
        no_kwargs = Inr None
   \<and> pkt_addrs example_helpers ''18:000730 01:145038 --:------''
        = Inr (''18:000730'', ''01:145038'', ''--:------'')
   \<and> device_decorator (Command_init example_helpers 0 RQ ''1F41'' [] ''01:145038'' no_kwargs)
        = Inr None
   \<and> int16 ''zone'' = Inl ValueError
   \<and> zone_decorator (ZStr ''zone'') (\<lambda>z. Inl AssertionError :: exn + command) = Inl ValueError"
proof -
  have a: "pkt_addrs example_helpers
             ((case from_id no_kwargs of None \<Rightarrow> HGI_DEV_ADDR_id example_helpers | Some f \<Rightarrow> f)
                @ '' '' @ ''01:145038'' @ '' '' @ NON_DEV_ADDR_id example_helpers)
           = Inr (''18:000730'', ''01:145038'', ''--:------'')"
    by (simp add: example_helpers_def no_kwargs_def)
  have i: "int16 ''zone'' = Inl ValueError"
    by (simp add: int16_def strip_space_def is_space_def hexdigit_def)
  show ?thesis
    using a i builder_faults_swallowed [where e = ValueError and z = 1 and sp = 100
        and h = example_helpers and now = 0 and ctl_id = "''01:145038''" and overrun = None
        and differential = None and kw = no_kwargs and mode = None and setpoint = "VFloat 20"
        and u = 0 and d = 60 and a = "(''18:000730'', ''01:145038'', ''--:------'')"
        and p = "[]" and v = RQ and c = "''1F41''" and s = "''zone''"
        and fcn = "\<lambda>z. Inl AssertionError"]
    by (simp add: vc_caught_def example_helpers_def no_kwargs_def)
qed




text \<open>
  \<open>get_system_log_entry\<close> with a log index of 97 hexadecimal digits: the payload is
  longer than 96 characters and the self-check of \<open>__init__\<close> raises \<open>ValueError\<close>, but
  the constructor is decorated with \<open>validate_command\<close>, which catches the exception,
  logs it and returns \<open>None\<close> to the caller.
\<close>

theorem validity_gate_counterexample:
  "get_system_log_entry_body example_helpers 0 ''01:145038'' (ZInt (16 ^ 96)) no_kwargs
     = Inl ValueError
   \<and> get_system_log_entry example_helpers 0 ''01:145038'' (ZInt (16 ^ 96)) no_kwargs = Inr None
   \<and> vc_logged (get_system_log_entry_body example_helpers 0 ''01:145038'' (ZInt (16 ^ 96))
        no_kwargs) = [ValueError]"
  using log_entry_fails
  by (simp only: get_system_log_entry_def device_decorator_def vc_wrapper_def vc_caught_def
      vc_logged_def) simp

text \<open>
  C8.  \<open>Command.__init__\<close> returns a command only if its frame matches the pattern and
  its payload has 2 to 96 characters; otherwise it raises: \<open>ValueError\<close> from the
  self-check, or the exception of \<open>pkt_addrs\<close>.  A command that \<open>packet\<close> returns
  has passed the check again, with its final addresses and sequence number.  In a
  constructor decorated with \<open>validate_command\<close> the \<open>ValueError\<close> of the self-check is
  caught and logged and the constructor returns \<open>None\<close>; a command that a decorated
  constructor returns has passed the check.
\<close>

theorem command_validity_gate:
  "(case Command_init h now v c p dest_id kw of
      Inr cmd \<Rightarrow> is_valid h cmd \<and> payload cmd = p
                 \<and> command_regex h (command_str cmd) \<and> 2 \<le> length p \<and> length p \<le> 96
    | Inl e \<Rightarrow> e = ValueError
               \<or> pkt_addrs h ((case from_id kw of None \<Rightarrow> HGI_DEV_ADDR_id h | Some f \<Rightarrow> f)
                                 @ '' '' @ dest_id @ '' '' @ NON_DEV_ADDR_id h) = Inl e)
   \<and> (\<not> (2 \<le> length p \<and> length p \<le> 96) \<longrightarrow> isl (Command_init h now v c p dest_id kw))
   \<and> (pkt_addrs h ((case from_id kw of None \<Rightarrow> HGI_DEV_ADDR_id h | Some f \<Rightarrow> f)
                     @ '' '' @ dest_id @ '' '' @ NON_DEV_ADDR_id h) = Inr a
        \<and> \<not> (2 \<le> length p \<and> length p \<le> 96) \<longrightarrow>
        Command_init h now v c p dest_id kw = Inl ValueError)
   \<and> (\<forall>cmd. Command_packet h now v c p addr0 addr1 addr2 sq kw = Inr cmd \<longrightarrow>
        is_valid h cmd \<and> payload cmd = p
        \<and> command_regex h (command_str cmd) \<and> 2 \<le> length p \<and> length p \<le> 96)
   \<and> (Command_init h now v c p dest_id kw = Inl ValueError \<longrightarrow>
        device_decorator (Command_init h now v c p dest_id kw) = Inr None
        \<and> zone_decorator (ZInt z) (\<lambda>i. Command_init h now v c p dest_id kw) = Inr None
        \<and> vc_logged (Command_init h now v c p dest_id kw) = [ValueError])
   \<and> (\<forall>cmd. device_decorator (Command_init h now v c p dest_id kw) = Inr (Some cmd)
          \<or> zone_decorator zi (\<lambda>i. Command_init h now v c p dest_id kw) = Inr (Some cmd) \<longrightarrow>
        is_valid h cmd \<and> payload cmd = p)"
proof -
  have init: "\<And>v dest_id cmd. Command_init h now v c p dest_id kw = Inr cmd \<Longrightarrow> payload cmd = p"
    by (auto simp: Command_init_def Let_def split: sum.splits if_splits)
  have valid: "\<And>cmd. Command_init h now v c p dest_id kw = Inr cmd \<Longrightarrow> is_valid h cmd"
    by (auto simp: Command_init_def Let_def split: sum.splits if_splits)
  have 1: "case Command_init h now v c p dest_id kw of
      Inr cmd \<Rightarrow> is_valid h cmd \<and> payload cmd = p
                 \<and> command_regex h (command_str cmd) \<and> 2 \<le> length p \<and> length p \<le> 96
    | Inl e \<Rightarrow> e = ValueError
               \<or> pkt_addrs h ((case from_id kw of None \<Rightarrow> HGI_DEV_ADDR_id h | Some f \<Rightarrow> f)
                                 @ '' '' @ dest_id @ '' '' @ NON_DEV_ADDR_id h) = Inl e"
    by (auto simp: Command_init_def is_valid_def Let_def split: sum.splits)
  have 2: "\<not> (2 \<le> length p \<and> length p \<le> 96) \<longrightarrow> isl (Command_init h now v c p dest_id kw)"
    by (auto simp: Command_init_def is_valid_def Let_def split: sum.splits)
  have 3: "pkt_addrs h ((case from_id kw of None \<Rightarrow> HGI_DEV_ADDR_id h | Some f \<Rightarrow> f)
                     @ '' '' @ dest_id @ '' '' @ NON_DEV_ADDR_id h) = Inr a
        \<and> \<not> (2 \<le> length p \<and> length p \<le> 96) \<longrightarrow>
        Command_init h now v c p dest_id kw = Inl ValueError"
    by (auto simp: Command_init_def is_valid_def Let_def split: sum.splits)
  have 4: "\<forall>cmd. Command_packet h now v c p addr0 addr1 addr2 sq kw = Inr cmd \<longrightarrow>
        is_valid h cmd \<and> payload cmd = p
        \<and> command_regex h (command_str cmd) \<and> 2 \<le> length p \<and> length p \<le> 96"
  proof (intro allI impI)
    fix cmd
    assume a: "Command_packet h now v c p addr0 addr1 addr2 sq kw = Inr cmd"
    then obtain cmd0 sq' ads where
      c0: "Command_init h now (if v = ''I'' then I_verb else if v = ''W'' then W_verb else v)
             c p (NUL_DEV_ADDR_id h) kw = Inr cmd0"
      and cmd: "cmd = cmd0\<lparr>seqn := sq', addrs := ads\<rparr>" and v: "is_valid h cmd"
      by (auto simp: Command_packet_def Let_def split: sum.splits if_splits)
    from init [OF c0] cmd have "payload cmd = p" by simp
    with v show "is_valid h cmd \<and> payload cmd = p
        \<and> command_regex h (command_str cmd) \<and> 2 \<le> length p \<and> length p \<le> 96"
      by (simp add: is_valid_def)
  qed
  have 5: "Command_init h now v c p dest_id kw = Inl ValueError \<longrightarrow>
        device_decorator (Command_init h now v c p dest_id kw) = Inr None
        \<and> zone_decorator (ZInt z) (\<lambda>i. Command_init h now v c p dest_id kw) = Inr None
        \<and> vc_logged (Command_init h now v c p dest_id kw) = [ValueError]"
    by (auto simp: device_decorator_def zone_decorator_def vc_wrapper_def vc_caught_def
        vc_logged_def)
  have 6: "\<forall>cmd. device_decorator (Command_init h now v c p dest_id kw) = Inr (Some cmd)
          \<or> zone_decorator zi (\<lambda>i. Command_init h now v c p dest_id kw) = Inr (Some cmd) \<longrightarrow>
        is_valid h cmd \<and> payload cmd = p"
  proof (intro allI impI)
    fix cmd
    assume "device_decorator (Command_init h now v c p dest_id kw) = Inr (Some cmd)
          \<or> zone_decorator zi (\<lambda>i. Command_init h now v c p dest_id kw) = Inr (Some cmd)"
    then have "Command_init h now v c p dest_id kw = Inr cmd"
      by (auto simp: device_decorator_def zone_decorator_def vc_wrapper_def
          split: sum.splits if_splits zone_arg.splits)
    with init valid show "is_valid h cmd \<and> payload cmd = p" by blast
  qed
  from 1 2 3 4 5 6 show ?thesis by blast
qed

theorem command_validity_gate_witness:
  "pkt_addrs example_helpers ''18:000730 01:145038 --:------''
        = Inr (''18:000730'', ''01:145038'', ''--:------'')
   \<and> \<not> (2 \<le> length ('''' :: string) \<and> length ('''' :: string) \<le> 96)
   \<and> Command_init example_helpers 0 RQ ''1F41'' [] ''01:145038'' no_kwargs = Inl ValueError
   \<and> device_decorator (Command_init example_helpers 0 RQ ''1F41'' [] ''01:145038'' no_kwargs)
       = Inr None
   \<and> zone_decorator (ZInt 1)
        (\<lambda>i. Command_init example_helpers 0 RQ ''1F41'' [] ''01:145038'' no_kwargs) = Inr None
   \<and> vc_logged (Command_init example_helpers 0 RQ ''1F41'' [] ''01:145038'' no_kwargs)
       = [ValueError]
   \<and> map_sum id command_str
        (Command_init example_helpers 0 RQ ''1F41'' ''00'' ''01:145038'' no_kwargs)
       = Inr ''RQ --- 18:000730 01:145038 --:------ 1F41 001 00''"
proof -
  have a: "pkt_addrs example_helpers
             ((case from_id no_kwargs of None \<Rightarrow> HGI_DEV_ADDR_id example_helpers | Some f \<Rightarrow> f)
                @ '' '' @ ''01:145038'' @ '' '' @ NON_DEV_ADDR_id example_helpers)
           = Inr (''18:000730'', ''01:145038'', ''--:------'')"
    by (simp add: example_helpers_def no_kwargs_def)
  have b: "map_sum id command_str
        (Command_init example_helpers 0 RQ ''1F41'' ''00'' ''01:145038'' no_kwargs)
       = Inr ''RQ --- 18:000730 01:145038 --:------ 1F41 001 00''"
    by code_simp
  have c: "Command_init example_helpers 0 RQ ''1F41'' [] ''01:145038'' no_kwargs
             = Inl ValueError"
    using a command_validity_gate [where h = example_helpers and now = 0 and v = RQ
        and c = "''1F41''" and p = "[]" and dest_id = "''01:145038''" and kw = no_kwargs
        and a = "(''18:000730'', ''01:145038'', ''--:------'')"]
    by simp
  show ?thesis
    using a b c command_validity_gate [where h = example_helpers and now = 0 and v = RQ
        and c = "''1F41''" and p = "[]" and dest_id = "''01:145038''" and kw = no_kwargs
        and a = "(''18:000730'', ''01:145038'', ''--:------'')" and z = 1]
    by (simp add: example_helpers_def no_kwargs_def)
qed

text \<open>
  Two requests, the first built with \<open>priority=None\<close> and the second with the priority
  of the table: \<open>__init__\<close> keeps the \<open>None\<close>, the two commands are not equal, and
  comparing them raises \<open>TypeError\<close> in both directions.
\<close>

theorem command_ordering_counterexample:
  "Command_init example_helpers 10 RQ ''1F41'' ''00'' ''01:145038''
       (no_kwargs\<lparr>kw_priority := Some None\<rparr>) = Inr (example_command None 10)
   \<and> Command_init example_helpers 20 RQ ''1F41'' ''00'' ''01:145038'' no_kwargs
       = Inr (example_command (Some 4) 20)
   \<and> command_lt (example_command None 10) (example_command (Some 4) 20) = Inl TypeError
   \<and> command_lt (example_command (Some 4) 20) (example_command None 10) = Inl TypeError
   \<and> \<not> command_eq (example_command None 10) (example_command (Some 4) 20)"
proof -
  have a: "Command_init example_helpers 10 RQ ''1F41'' ''00'' ''01:145038''
       (no_kwargs\<lparr>kw_priority := Some None\<rparr>) = Inr (example_command None 10)"
    by code_simp
  have b: "Command_init example_helpers 20 RQ ''1F41'' ''00'' ''01:145038'' no_kwargs
       = Inr (example_command (Some 4) 20)"
    by code_simp
  show ?thesis
    using a b by (simp add: command_lt_def command_eq_def tuple_lt_def priority_lt_def
        example_command_def)
qed

text \<open>
  C9.  Commands whose priorities are integers are ordered by priority, then by
  timestamp: \<open>__lt__\<close> is the strict lexicographic order of the pairs, \<open>__le__\<close> its
  reflexive closure, and the order is total, irreflexive and transitive.  \<open>__eq__\<close>
  holds when both components agree.  A command built without a \<open>priority\<close> argument
  has the priority of the table, one built with an integer has that integer, and its
  timestamp is the time of the call.
\<close>

theorem command_ordering:
  "(priority a = Some p \<and> priority b = Some q \<longrightarrow>
       command_lt a b = Inr (p < q \<or> (p = q \<and> dtm a < dtm b))
     \<and> command_le a b = Inr (p < q \<or> (p = q \<and> dtm a \<le> dtm b))
     \<and> (command_lt a b = Inr True \<or> command_eq a b \<or> command_lt b a = Inr True)
     \<and> \<not> (command_lt a b = Inr True \<and> command_lt b a = Inr True)
     \<and> \<not> (command_lt a b = Inr True \<and> command_eq a b)
     \<and> (command_le a b = Inr True \<longleftrightarrow> command_lt b a = Inr False))
   \<and> (priority a = Some p \<and> priority b = Some q \<and> priority c = Some r
        \<and> command_lt a b = Inr True \<and> command_lt b c = Inr True \<longrightarrow>
        command_lt a c = Inr True)
   \<and> (command_eq a b \<longleftrightarrow> priority a = priority b \<and> dtm a = dtm b)
   \<and> (\<forall>cmd. Command_init h now v cd pl dest_id kw = Inr cmd \<and> kw_priority kw \<noteq> Some None \<longrightarrow>
        dtm cmd = now
        \<and> (\<exists>n. priority cmd = Some n
               \<and> (kw_priority kw = None \<longrightarrow> n = qos_priority (take 2 (rjust 2 v)) cd)
               \<and> (kw_priority kw \<noteq> None \<longrightarrow> kw_priority kw = Some (Some n))))"
proof -
  have 1: "priority a = Some p \<and> priority b = Some q \<longrightarrow>
       command_lt a b = Inr (p < q \<or> (p = q \<and> dtm a < dtm b))
     \<and> command_le a b = Inr (p < q \<or> (p = q \<and> dtm a \<le> dtm b))
     \<and> (command_lt a b = Inr True \<or> command_eq a b \<or> command_lt b a = Inr True)
     \<and> \<not> (command_lt a b = Inr True \<and> command_lt b a = Inr True)
     \<and> \<not> (command_lt a b = Inr True \<and> command_eq a b)
     \<and> (command_le a b = Inr True \<longleftrightarrow> command_lt b a = Inr False)"
    by (auto simp: command_lt_def command_le_def command_eq_def tuple_lt_def priority_lt_def)
  have 2: "priority a = Some p \<and> priority b = Some q \<and> priority c = Some r
        \<and> command_lt a b = Inr True \<and> command_lt b c = Inr True \<longrightarrow>
        command_lt a c = Inr True"
    by (auto simp: command_lt_def tuple_lt_def priority_lt_def split: if_splits)
  have 3: "command_eq a b \<longleftrightarrow> priority a = priority b \<and> dtm a = dtm b"
    by (simp add: command_eq_def)
  have 4: "\<forall>cmd. Command_init h now v cd pl dest_id kw = Inr cmd \<and> kw_priority kw \<noteq> Some None \<longrightarrow>
        dtm cmd = now
        \<and> (\<exists>n. priority cmd = Some n
               \<and> (kw_priority kw = None \<longrightarrow> n = qos_priority (take 2 (rjust 2 v)) cd)
               \<and> (kw_priority kw \<noteq> None \<longrightarrow> kw_priority kw = Some (Some n)))"
    by (auto simp: Command_init_def Let_def split: sum.splits if_splits option.splits)
  from 1 2 3 4 show ?thesis by blast
qed

theorem command_ordering_witness:
  "command_lt (example_command (Some 2) 30) (example_command (Some 4) 10) = Inr True
   \<and> command_lt (example_command (Some 4) 10) (example_command (Some 4) 20) = Inr True
   \<and> command_lt (example_command (Some 2) 30) (example_command (Some 4) 20) = Inr True
   \<and> command_le (example_command (Some 4) 10) (example_command (Some 4) 10) = Inr True
   \<and> command_lt (example_command (Some 4) 10) (example_command (Some 4) 10) = Inr False
   \<and> Command_init example_helpers 20 RQ ''1F41'' ''00'' ''01:145038'' no_kwargs
        = Inr (example_command (Some 4) 20)
   \<and> kw_priority no_kwargs \<noteq> Some None
   \<and> priority (example_command (Some 4) 20) = Some 4"
proof -
  have b: "Command_init example_helpers 20 RQ ''1F41'' ''00'' ''01:145038'' no_kwargs
       = Inr (example_command (Some 4) 20)"
    by code_simp
  have p: "priority (example_command (Some 2) 30) = Some 2"
    "priority (example_command (Some 4) 10) = Some 4"
    "priority (example_command (Some 4) 20) = Some 4"
    "dtm (example_command (Some 2) 30) = 30" "dtm (example_command (Some 4) 10) = 10"
    "dtm (example_command (Some 4) 20) = 20"
    by (simp_all add: example_command_def)
  show ?thesis
    using b p
      command_ordering [where a = "example_command (Some 2) 30"
        and b = "example_command (Some 4) 10" and c = "example_command (Some 4) 20"
        and p = 2 and q = 4 and r = 4 and h = example_helpers and now = 20 and v = RQ
        and cd = "''1F41''" and pl = "''00''" and dest_id = "''01:145038''" and kw = no_kwargs]
      command_ordering [where a = "example_command (Some 4) 10"
        and b = "example_command (Some 4) 20" and p = 4 and q = 4]
      command_ordering [where a = "example_command (Some 4) 10"
        and b = "example_command (Some 4) 10" and p = 4 and q = 4]
    by (simp add: no_kwargs_def)
qed

text \<open>
  With the temporary override but without a setpoint, \<open>normalise_zone_mode\<close> raises
  \<open>ValueError\<close> and no command is built.
\<close>

theorem temporary_without_until_counterexample:
  "set_zone_mode example_helpers 0 ''01:145038'' (ZInt 1)
     (Some (ModeKey temporary_override)) VNone None None no_kwargs = Inr None
   \<and> set_zone_mode_body example_helpers 0 ''01:145038''
     (Some (ModeKey temporary_override)) VNone None None no_kwargs 1 = Inl ValueError"
  by (simp add: set_zone_mode_def set_zone_mode_body_def zone_decorator_def vc_wrapper_def
      vc_caught_def normalise_zone_mode_def truthy_dt_def truthy_int_def)

text \<open>
  C10, as the code has it.  With the temporary override given explicitly, until and
  duration absent and a numeric setpoint (or a boolean or integer \<open>active\<close>),
  neither normalisation step faults: \<open>normalise_duration\<close> lowers its local mode to the
  advanced override and returns \<open>(None, None)\<close>, and the constructor hands to
  \<open>Command.__init__\<close> the payload with the code of the temporary override, the
  duration \<open>FFFFFF\<close> and no bytes for until.  Without a setpoint (without \<open>active\<close>)
  the first step raises and the constructor returns \<open>None\<close>.
\<close>

theorem temporary_without_until:
  "normalise_duration_locals temporary_override None None
           = Inr (advanced_override, None, None)
   \<and> normalise_duration temporary_override target None None = Inr (None, None)
   \<and> (temp_to_hex h setpoint = Inr sp \<and> setpoint \<noteq> VNone \<and> is_float_or_int setpoint \<longrightarrow>
        set_zone_mode_body h now ctl_id (Some (ModeKey temporary_override)) setpoint None None
           kw zone_idx
         = Command_init h now W_verb ''2349''
             (fmtX 2 zone_idx @ sp @ zone_mode_code h temporary_override @ ''FFFFFF'') ctl_id kw)
   \<and> (active \<noteq> VNone \<and> is_bool_or_int active \<longrightarrow>
        set_dhw_mode_body h now ctl_id (Some (ModeKey temporary_override)) active None None kw
         = Command_init h now W_verb ''1F41''
             (''00'' @ (if py_bool active then ''01'' else ''00'')
                @ zone_mode_code h temporary_override @ ''FFFFFF'') ctl_id kw)
   \<and> set_zone_mode h now ctl_id (ZInt zone_idx) (Some (ModeKey temporary_override)) VNone
         None None kw = Inr None
   \<and> set_dhw_mode h now ctl_id (Some (ModeKey temporary_override)) VNone None None kw
         = Inr None"
proof -
  have z: "set_zone_mode h now ctl_id (ZInt zone_idx) (Some (ModeKey temporary_override)) VNone
         None None kw = Inr None"
    by (simp add: set_zone_mode_def set_zone_mode_body_def zone_decorator_def vc_wrapper_def
        vc_caught_def normalise_zone_mode_def truthy_dt_def truthy_int_def)
  have d: "set_dhw_mode h now ctl_id (Some (ModeKey temporary_override)) VNone None None kw
         = Inr None"
    by (simp add: set_dhw_mode_def set_dhw_mode_body_def device_decorator_def vc_wrapper_def
        vc_caught_def normalise_zone_mode_def truthy_dt_def truthy_int_def)
  show ?thesis
    using z d
    by (simp add: set_zone_mode_body_def set_dhw_mode_body_def normalise_temporary_explicit
        normalise_duration_temporary duration_hex_def until_hex_def)
qed

theorem temporary_without_until_witness:
  "temp_to_hex example_helpers (VFloat 20) = Inr ''07D0''
   \<and> VFloat 20 \<noteq> VNone \<and> is_float_or_int (VFloat 20)
   \<and> VBool True \<noteq> VNone \<and> is_bool_or_int (VBool True)
   \<and> map_sum id payload (set_zone_mode_body example_helpers 0 ''01:145038''
        (Some (ModeKey temporary_override)) (VFloat 20) None None no_kwargs 1)
       = Inr ''0107D004FFFFFF''
   \<and> map_sum id payload (set_dhw_mode_body example_helpers 0 ''01:145038''
        (Some (ModeKey temporary_override)) (VBool True) None None no_kwargs)
       = Inr ''000104FFFFFF''"
proof -
  have t: "temp_to_hex example_helpers (VFloat 20) = Inr ''07D0''"
    by (simp add: example_helpers_def temp_to_hex_spec_def fmtX_def zfill_def)
  have c: "zone_mode_code example_helpers temporary_override = ''04''"
    by (simp add: example_helpers_def)
  have i1: "map_sum id payload (Command_init example_helpers 0 W_verb ''2349''
              ''0107D004FFFFFF'' ''01:145038'' no_kwargs) = Inr ''0107D004FFFFFF''"
    by code_simp
  have i2: "map_sum id payload (Command_init example_helpers 0 W_verb ''1F41''
              ''000104FFFFFF'' ''01:145038'' no_kwargs) = Inr ''000104FFFFFF''"
    by code_simp
  have f: "fmtX 2 1 = ''01''"
    by (simp add: fmtX_def zfill_def)
  show ?thesis
    using temporary_without_until [where h = example_helpers and setpoint = "VFloat 20"
        and sp = "''07D0''" and active = "VBool True" and now = 0 and ctl_id = "''01:145038''"
        and kw = no_kwargs and zone_idx = 1] i1 i2
    by (simp add: is_float_or_int_def is_bool_or_int_def py_bool_def c f t)
qed

section \<open>Properties of the parsers\<close>

text \<open>
  C2.  \<open>parse_payload\<close> does not keep every fault of a parser from its caller.  For the
  synchronisation frame 1F09 with the payload \<open>00FFFF\<close>, sent by a controller: with a
  length other than 3 the assertion of the parser fails, \<open>parse_payload\<close> logs a warning
  and returns \<open>None\<close>; stamped at the start of the calendar the frame is decoded; stamped
  9999-12-31T23:00:00 the sum \<open>msg.dtm + td(seconds=6553.5)\<close> raises \<open>OverflowError\<close>,
  which no handler of \<open>parse_payload\<close> names, and the exception reaches the caller.
\<close>

theorem parse_payload_overflow:
  "parse_payload example_tables late_sync = (Inl OverflowError, [])
   \<and> parse_payload example_tables (late_sync\<lparr>m_len := 4\<rparr>) = (Inr None, [WARNING])
   \<and> parse_payload example_tables (late_sync\<lparr>m_dtm := 0\<rparr>)
       = (Inr (Some (RDict [(''remaining_seconds'', VFloat (13107 / 2)),
                            (''_next_sync'', VStr ''01:49:13'')])), [])"
proof -
  have r: "is_hex ''00FFFF'' \<and> even (length ''00FFFF'')"
    by (simp add: is_hex_def hexdigit_def)
  have n: "int16 (slice 2 6 ''00FFFF'') = Inr 65535"
    by (simp add: slice_def int16_def strip_space_def is_space_def hexdigit_def)
  have s: "check_verb_code_src example_tables late_sync = Inr ()"
    by (simp add: check_verb_code_src_def late_sync_def example_tables_def)
  have d: "check_verb_code_dst example_tables late_sync = Inr ()"
    by (simp add: check_verb_code_dst_def late_sync_def example_tables_def)
  have p: "check_verb_code_payload example_tables late_sync ''00FFFF'' = Inr ()"
    using r by (simp add: check_verb_code_payload_def late_sync_def example_tables_def)
  have v: "m_verb late_sync \<noteq> RQ" "has_payload late_sync" "raw_payload late_sync = ''00FFFF''"
    "m_code late_sync = ''1F09''" "RAMSES_CODES example_tables ''1F09'' \<noteq> None"
    by (simp_all add: late_sync_def I_verb_def RQ_def example_tables_def)
  have w: "parser_decorator example_tables parser_1f09 late_sync = Inl OverflowError"
    using s d p v sync_overflows by (simp add: parser_decorator_def bind_def Let_def)
  have 1: "parse_payload example_tables late_sync = (Inl OverflowError, [])"
    using w v by (simp add: parse_payload_def get_parser_def PAYLOAD_PARSERS_def)
  have g: "get_parser example_tables ''1F09'' (late_sync\<lparr>m_len := 4\<rparr>) = Inl AssertionError"
    using r by (simp add: get_parser_def PAYLOAD_PARSERS_def parser_decorator_def bind_def
        Let_def check_verb_code_src_def check_verb_code_dst_def check_verb_code_payload_def
        late_sync_def example_tables_def parser_1f09_def assert_def I_verb_def RQ_def)
  have 2: "parse_payload example_tables (late_sync\<lparr>m_len := 4\<rparr>) = (Inr None, [WARNING])"
    using g by (simp add: parse_payload_def late_sync_def example_tables_def)
  have t: "strftime_HMS 6553500000 = ''01:49:13''"
    by code_simp
  have e: "parser_1f09 (late_sync\<lparr>m_dtm := 0\<rparr>)
             = Inr (RDict [(''remaining_seconds'', VFloat (13107 / 2)),
                           (''_next_sync'', VStr ''01:49:13'')])"
    using n t by (simp add: parser_1f09_def late_sync_def assert_def bind_def
        timedelta_us_def dt_add_def dt_max_def)
  have h: "get_parser example_tables ''1F09'' (late_sync\<lparr>m_dtm := 0\<rparr>)
             = Inr (RDict [(''remaining_seconds'', VFloat (13107 / 2)),
                           (''_next_sync'', VStr ''01:49:13'')])"
    using r e by (simp add: get_parser_def PAYLOAD_PARSERS_def parser_decorator_def bind_def
        Let_def check_verb_code_src_def check_verb_code_dst_def check_verb_code_payload_def
        late_sync_def example_tables_def I_verb_def RQ_def dict_merge_def)
  have 3: "parse_payload example_tables (late_sync\<lparr>m_dtm := 0\<rparr>)
       = (Inr (Some (RDict [(''remaining_seconds'', VFloat (13107 / 2)),
                            (''_next_sync'', VStr ''01:49:13'')])), [])"
    using h by (simp add: parse_payload_def late_sync_def)
  from 1 2 3 show ?thesis by simp
qed

end
